theory Spec2Isabelle
  imports Main
begin

section \<open>Data model of \<open>gow_main.go\<close>\<close>

text \<open>
  The supervisor keeps all its state in one value of type \<open>Main\<close>. The methods of
  \<open>gow_main.go\<close> are embedded as functions from \<open>Main\<close> to \<open>Main\<close>. Time is counted in
  nanoseconds (\<open>time.Time\<close> as an instant, \<open>time.Duration\<close> as a difference), and
  \<open>syscall.Signal\<close> is Go's \<open>type Signal int\<close>.
\<close>

type_synonym Time = int
type_synonym Duration = int
type_synonym Signal = int

text \<open>
  \<open>os.Signal\<close> is an interface. On Unix the values delivered by \<open>signal.Notify\<close> are
  always of the dynamic type \<open>syscall.Signal\<close>, which is the only case \<open>SigRun\<close> is written
  for (\<open>val.(syscall.Signal)\<close>).
\<close>

datatype os_Signal = SyscallSignal Signal

text \<open>Signal numbers of package \<open>syscall\<close> (Linux and Darwin agree on these).\<close>

definition SIGHUP :: Signal where "SIGHUP = 1"
definition SIGINT :: Signal where "SIGINT = 2"
definition SIGQUIT :: Signal where "SIGQUIT = 3"
definition SIGKILL :: Signal where "SIGKILL = 9"
definition SIGTERM :: Signal where "SIGTERM = 15"

text \<open>
  Modelled from the spec: the variable \<open>KILL_SIGS\<close> is declared outside
  \<open>gow_main.go\<close>. The spec lists the kill signals as interrupt, terminate, hangup, quit.
\<close>

definition KILL_SIGS :: "Signal list" where
  "KILL_SIGS = [SIGINT, SIGTERM, SIGHUP, SIGQUIT]"

text \<open>
  Modelled from the spec: the variable \<open>KILL_SIGS_OS\<close> is declared outside
  \<open>gow_main.go\<close>. The spec says that the signals registered at startup are the fixed set of
  Unix termination signals interrupt, terminate, hangup, quit, as \<open>os.Signal\<close> values.
\<close>

definition KILL_SIGS_OS :: "os_Signal list" where
  "KILL_SIGS_OS =
     [SyscallSignal SIGINT, SyscallSignal SIGTERM, SyscallSignal SIGHUP, SyscallSignal SIGQUIT]"

text \<open>\<open>FsEvent\<close> is an interface with the method \<open>Path\<close>; the nil interface is \<open>None\<close>.\<close>

datatype FsEvent = FsEvent (Path: string)

text \<open>A panic value, as \<open>recover\<close> returns it.\<close>

datatype error = Panic string

text \<open>The fields of \<open>Opt\<close> that \<open>gow_main.go\<close> reads.\<close>

record Opt =
  Verb :: bool
  Lazy :: bool
  Postpone :: bool
  Debounce :: Duration

text \<open>
  Modelled from the spec: the type \<open>Cmd\<close> is declared outside \<open>gow_main.go\<close>. The spec
  gives the Process Handle the states NotStarted, Running, Exited, and speaks of it as a
  resource that the teardown releases unless it was never acquired (\<open>Held\<close>).
\<close>

datatype ProcState = NotStarted | Running | Exited

record Cmd =
  Held :: bool
  Proc :: ProcState

text \<open>
  Modelled from the spec: the type \<open>Stdio\<close> is declared outside \<open>gow_main.go\<close>. The spec
  speaks of an I/O relay that the teardown stops unless it was never acquired.
\<close>

record Stdio =
  Relaying :: bool

text \<open>
  Modelled from the spec: the type \<open>TermState\<close> is declared outside \<open>gow_main.go\<close>. The
  spec speaks of a saved terminal state that the teardown restores unless it was never
  acquired.
\<close>

record TermState =
  Saved :: bool

text \<open>
  The interface \<open>Watcher\<close>, nil (\<open>None\<close>) or the \<open>WatchNotify\<close> that \<open>WatchInit\<close> creates.
\<close>

datatype Watcher = WatchNotify

text \<open>
  The log of what the program does, in the order in which it does it: the effects on the
  world outside \<open>Main\<close> and the writes of the debounce baseline. \<open>SyscallKill sig\<close> is
  \<open>syscall.Kill(os.Getpid(), sig)\<close>, \<open>ChanRestartSend\<close> and \<open>ChanKillSend\<close> are the
  non-blocking sends \<open>SendZeroOpt\<close> and \<open>SendOpt\<close> on the two channels, the \<open>Log\<close> events
  are lines written by the logger on standard error, and \<open>OsExit\<close> is \<open>os.Exit\<close>.
\<close>

datatype Event =
    SetLastRestart Time
  | SignalNotify "os_Signal list"
  | SignalStop
  | StdioStop
  | TermRestore
  | WatcherDeinit
  | CmdRelease
  | CmdRestart
  | CmdBroadcast Signal
  | TermInter
  | SyscallKill Signal
  | ChanRestartSend
  | ChanKillSend Signal
  | LogKillSignal Signal
  | LogUnknownSignal Signal
  | LogFsRestart "FsEvent option"
  | LogErr error
  | OsExit int

text \<open>
  The struct \<open>Main\<close>. A channel is \<open>None\<close> when nil and \<open>Some cap\<close> once made with
  capacity \<open>cap\<close>. Two components are not fields of the Go struct: \<open>sigNotify\<close>, the set of
  signals that package \<open>os/signal\<close> relays to \<open>ChanSignals\<close>, and \<open>trace\<close>, the event log.
\<close>

record Main =
  Opt :: Opt
  Cmd :: Cmd
  Stdio :: Stdio
  Watcher :: "Watcher option"
  TermState :: TermState
  ChanSignals :: "nat option"
  ChanRestart :: "nat option"
  ChanKill :: "nat option"
  lastRestart :: Time
  sigNotify :: "os_Signal set"
  trace :: "Event list"

text \<open>\<open>var main Main\<close>: the zero value, in a process that has subscribed to no signal.\<close>

definition zero_Main :: Main where
  "zero_Main =
     \<lparr>Opt = \<lparr>Verb = False, Lazy = False, Postpone = False, Debounce = 0\<rparr>,
      Cmd = \<lparr>Held = False, Proc = NotStarted\<rparr>,
      Stdio = \<lparr>Relaying = False\<rparr>,
      Watcher = None,
      TermState = \<lparr>Saved = False\<rparr>,
      ChanSignals = None, ChanRestart = None, ChanKill = None,
      lastRestart = 0, sigNotify = {}, trace = []\<rparr>"

definition emit :: "Event \<Rightarrow> Main \<Rightarrow> Main" where
  "emit e s = s\<lparr>trace := trace s @ [e]\<rparr>"

text \<open>The events that running \<open>f\<close> from \<open>s\<close> adds to the log.\<close>

definition emitted :: "(Main \<Rightarrow> Main) \<Rightarrow> Main \<Rightarrow> Event list" where
  "emitted f s = drop (length (trace s)) (trace (f s))"

section \<open>Library functions\<close>

text \<open>\<open>gg.Has\<close>: membership in a slice.\<close>

definition gg_Has :: "'a list \<Rightarrow> 'a \<Rightarrow> bool" where
  "gg_Has xs x = (x \<in> set xs)"

text \<open>\<open>gg.Chan.Init\<close> and \<open>gg.Chan.InitCap\<close>: make the channel unless it exists.\<close>

definition Chan_InitCap :: "nat \<Rightarrow> nat option \<Rightarrow> nat option" where
  "Chan_InitCap n c = (case c of None \<Rightarrow> Some n | Some k \<Rightarrow> Some k)"

definition Chan_Init :: "nat option \<Rightarrow> nat option" where
  "Chan_Init c = Chan_InitCap 0 c"

text \<open>\<open>signal.Notify\<close> adds the signals to those relayed to the channel.\<close>

definition signal_Notify :: "os_Signal list \<Rightarrow> Main \<Rightarrow> Main" where
  "signal_Notify sigs s = emit (SignalNotify sigs) (s\<lparr>sigNotify := sigNotify s \<union> set sigs\<rparr>)"

text \<open>
  \<open>signal.Stop\<close> undoes every \<open>Notify\<close> on the channel. On a channel that relays nothing it
  finds no handler to remove and changes nothing.
\<close>

definition signal_Stop :: "Main \<Rightarrow> Main" where
  "signal_Stop s = (if sigNotify s = {} then s else emit SignalStop (s\<lparr>sigNotify := {}\<rparr>))"

section \<open>Components outside \<open>gow_main.go\<close>\<close>

text \<open>
  Modelled from the spec: \<open>Debounce.Allow\<close> is declared outside \<open>gow_main.go\<close>. The spec
  admits an event when the elapsed time since the last recorded restart is at least the
  configured debounce duration. The clock reading is the argument \<open>now\<close>.
\<close>

definition Debounce_Allow :: "Duration \<Rightarrow> Time \<Rightarrow> Time \<Rightarrow> bool" where
  "Debounce_Allow d now since = (d \<le> now - since)"

text \<open>
  Modelled from the spec: \<open>Cmd.IsRunning\<close> is declared outside \<open>gow_main.go\<close>. The spec
  says that the Process Handle answers whether the child is running.
\<close>

definition Cmd_IsRunning :: "Cmd \<Rightarrow> bool" where
  "Cmd_IsRunning c = (Proc c = Running)"

text \<open>
  Modelled from the spec: \<open>Cmd.Restart\<close> is declared outside \<open>gow_main.go\<close>. The spec
  says that a restart replaces the previous instance of the child by a fresh one.
\<close>

definition Cmd_Restart :: "Main \<Rightarrow> Main" where
  "Cmd_Restart s = emit CmdRestart (s\<lparr>Cmd := \<lparr>Held = True, Proc = Running\<rparr>\<rparr>)"

text \<open>
  Modelled from the spec: \<open>Cmd.Broadcast\<close> is declared outside \<open>gow_main.go\<close>. The spec
  says that it sends the signal to the child and all its descendants.
\<close>

definition Cmd_Broadcast :: "Signal \<Rightarrow> Main \<Rightarrow> Main" where
  "Cmd_Broadcast sig s = emit (CmdBroadcast sig) s"

text \<open>
  Modelled from the spec: \<open>Cmd.Deinit\<close> is declared outside \<open>gow_main.go\<close>. The spec says
  that it releases the Process Handle and is skipped when the resource was never acquired.
\<close>

definition Cmd_Deinit :: "Main \<Rightarrow> Main" where
  "Cmd_Deinit s =
     (if Held (Cmd s) then emit CmdRelease (s\<lparr>Cmd := (Cmd s)\<lparr>Held := False\<rparr>\<rparr>) else s)"

text \<open>
  Modelled from the spec: \<open>Stdio.Deinit\<close> is declared outside \<open>gow_main.go\<close>. The spec says
  that it stops the I/O relay and is skipped when the resource was never acquired.
\<close>

definition Stdio_Deinit :: "Main \<Rightarrow> Main" where
  "Stdio_Deinit s =
     (if Relaying (Stdio s) then emit StdioStop (s\<lparr>Stdio := \<lparr>Relaying = False\<rparr>\<rparr>) else s)"

text \<open>
  Modelled from the spec: \<open>TermState.Deinit\<close> is declared outside \<open>gow_main.go\<close>. The spec
  says that it restores the terminal state and is skipped when the resource was never
  acquired.
\<close>

definition TermState_Deinit :: "Main \<Rightarrow> Main" where
  "TermState_Deinit s =
     (if Saved (TermState s) then emit TermRestore (s\<lparr>TermState := \<lparr>Saved = False\<rparr>\<rparr>) else s)"

text \<open>
  Modelled from the spec: \<open>Opt.TermInter\<close> is declared outside \<open>gow_main.go\<close>. The spec
  calls it a courtesy interrupt notification for the current instance of the child.
\<close>

definition Opt_TermInter :: "Main \<Rightarrow> Main" where
  "Opt_TermInter s = emit TermInter s"

text \<open>
  Modelled from the spec: \<open>Opt.LogErr\<close> is declared outside \<open>gow_main.go\<close>. The spec says
  that the error is logged to standard error with a fixed prefix.
\<close>

definition Opt_LogErr :: "error \<Rightarrow> Main \<Rightarrow> Main" where
  "Opt_LogErr err s = emit (LogErr err) s"

section \<open>Restart admission\<close>

text \<open>
  \<open>Main.ShouldRestart\<close>. The method \<open>Opt.AllowPath\<close> is declared outside \<open>gow_main.go\<close>
  and is the parameter \<open>allowPath\<close>; \<open>now\<close> is the clock that \<open>Debounce.Allow\<close> reads.
  The conjunction short-circuits, so \<open>event.Path()\<close> is only called on a non-nil event.
\<close>

definition ShouldRestart ::
  "(Opt \<Rightarrow> string \<Rightarrow> bool) \<Rightarrow> Time \<Rightarrow> Main \<Rightarrow> FsEvent option \<Rightarrow> bool" where
  "ShouldRestart allowPath now s event =
     (case event of
        None \<Rightarrow> False
      | Some ev \<Rightarrow>
          \<not> (Lazy (Opt s) \<and> Cmd_IsRunning (Cmd s)) \<and>
          allowPath (Opt s) (Path ev) \<and>
          Debounce_Allow (Debounce (Opt s)) now (lastRestart s))"

text \<open>\<open>Main.Restart\<close> and \<open>Main.Kill\<close>: non-blocking sends on the two channels.\<close>

definition Restart :: "Main \<Rightarrow> Main" where
  "Restart s = emit ChanRestartSend s"

definition Kill :: "Signal \<Rightarrow> Main \<Rightarrow> Main" where
  "Kill val s = emit (ChanKillSend val) s"

text \<open>\<open>Main.OnFsEvent\<close>, called by the watcher for each change event.\<close>

definition OnFsEvent ::
  "(Opt \<Rightarrow> string \<Rightarrow> bool) \<Rightarrow> Time \<Rightarrow> FsEvent option \<Rightarrow> Main \<Rightarrow> Main" where
  "OnFsEvent allowPath now event s =
     (if \<not> ShouldRestart allowPath now s event then s
      else Restart (if Verb (Opt s) then emit (LogFsRestart event) s else s))"

section \<open>Signal relay\<close>

text \<open>\<open>Main.SigInit\<close>: make the channel with capacity 1 and subscribe it.\<close>

definition SigInit :: "Main \<Rightarrow> Main" where
  "SigInit s = signal_Notify KILL_SIGS_OS (s\<lparr>ChanSignals := Chan_InitCap 1 (ChanSignals s)\<rparr>)"

text \<open>\<open>Main.SigDeinit\<close>: the channel is tested and is left in place.\<close>

definition SigDeinit :: "Main \<Rightarrow> Main" where
  "SigDeinit s = (if ChanSignals s \<noteq> None then signal_Stop s else s)"

text \<open>
  The body of the loop of \<open>Main.SigRun\<close> for one value taken from \<open>ChanSignals\<close>, and the
  loop over the values received so far. The channel is never closed, so the loop ends only
  with the program.
\<close>

definition SigRun_body :: "os_Signal \<Rightarrow> Main \<Rightarrow> Main" where
  "SigRun_body val s =
     (case val of SyscallSignal sig \<Rightarrow>
        if gg_Has KILL_SIGS sig
        then Kill sig (if Verb (Opt s) then emit (LogKillSignal sig) s else s)
        else (if Verb (Opt s) then emit (LogUnknownSignal sig) s else s))"

fun SigRun :: "os_Signal list \<Rightarrow> Main \<Rightarrow> Main" where
  "SigRun [] s = s"
| "SigRun (val # vals) s = SigRun vals (SigRun_body val s)"

section \<open>Initialisation and teardown\<close>

text \<open>
  The initialisers of the components are declared outside \<open>gow_main.go\<close>. What each of
  them returns in a given run, a panic or the initialised component, is a parameter, as is
  the clock reading at the end of \<open>Init\<close>.
\<close>

record InitEnv =
  OptInit :: "error + Opt"
  CmdInit :: "error + Cmd"
  WatchNotifyInit :: "error option"
  TermStateInit :: "error + TermState"
  StdioInit :: "error + Stdio"
  Now :: Time

text \<open>
  A statement either completes or panics. A panic leaves \<open>Main\<close> as it was at that moment
  and skips the statements that follow.
\<close>

definition ok :: "(Main \<Rightarrow> Main) \<Rightarrow> Main \<Rightarrow> Main \<times> error option" where
  "ok f s = (f s, None)"

fun run_steps :: "(Main \<Rightarrow> Main \<times> error option) list \<Rightarrow> Main \<Rightarrow> Main \<times> error option" where
  "run_steps [] s = (s, None)"
| "run_steps (f # fs) s =
     (case f s of (s', None) \<Rightarrow> run_steps fs s' | (s', Some e) \<Rightarrow> (s', Some e))"

definition Opt_Init :: "InitEnv \<Rightarrow> Main \<Rightarrow> Main \<times> error option" where
  "Opt_Init env s =
     (case OptInit env of Inl e \<Rightarrow> (s, Some e) | Inr opt \<Rightarrow> (s\<lparr>Opt := opt\<rparr>, None))"

definition Cmd_Init :: "InitEnv \<Rightarrow> Main \<Rightarrow> Main \<times> error option" where
  "Cmd_Init env s =
     (case CmdInit env of Inl e \<Rightarrow> (s, Some e) | Inr c \<Rightarrow> (s\<lparr>Cmd := c\<rparr>, None))"

definition TermState_Init :: "InitEnv \<Rightarrow> Main \<Rightarrow> Main \<times> error option" where
  "TermState_Init env s =
     (case TermStateInit env of Inl e \<Rightarrow> (s, Some e) | Inr t \<Rightarrow> (s\<lparr>TermState := t\<rparr>, None))"

definition Stdio_Init :: "InitEnv \<Rightarrow> Main \<Rightarrow> Main \<times> error option" where
  "Stdio_Init env s =
     (case StdioInit env of Inl e \<Rightarrow> (s, Some e) | Inr io \<Rightarrow> (s\<lparr>Stdio := io\<rparr>, None))"

text \<open>\<open>Main.WatchInit\<close>: the field is assigned only after \<open>wat.Init\<close> has returned.\<close>

definition WatchInit :: "InitEnv \<Rightarrow> Main \<Rightarrow> Main \<times> error option" where
  "WatchInit env s =
     (case WatchNotifyInit env of
        Some e \<Rightarrow> (s, Some e)
      | None \<Rightarrow> (s\<lparr>Watcher := Some WatchNotify\<rparr>, None))"

text \<open>\<open>Main.WatchDeinit\<close>: \<open>Watcher.Deinit\<close>, then the field is set to nil.\<close>

definition WatchDeinit :: "Main \<Rightarrow> Main" where
  "WatchDeinit s =
     (if Watcher s \<noteq> None then (emit WatcherDeinit s)\<lparr>Watcher := None\<rparr> else s)"

text \<open>The assignment \<open>self.lastRestart = time.Now()\<close>, the clock reading \<open>t\<close>.\<close>

definition set_lastRestart :: "Time \<Rightarrow> Main \<Rightarrow> Main" where
  "set_lastRestart t s = emit (SetLastRestart t) (s\<lparr>lastRestart := t\<rparr>)"

text \<open>\<open>Main.Init\<close>.\<close>

definition Init :: "InitEnv \<Rightarrow> Main \<Rightarrow> Main \<times> error option" where
  "Init env =
     run_steps
       [Opt_Init env,
        ok (\<lambda>s. s\<lparr>ChanRestart := Chan_Init (ChanRestart s)\<rparr>),
        ok (\<lambda>s. s\<lparr>ChanKill := Chan_Init (ChanKill s)\<rparr>),
        Cmd_Init env,
        ok SigInit,
        WatchInit env,
        TermState_Init env,
        Stdio_Init env,
        ok (set_lastRestart (Now env))]"

text \<open>\<open>Main.Deinit\<close>.\<close>

definition Deinit :: "Main \<Rightarrow> Main" where
  "Deinit s = Cmd_Deinit (SigDeinit (WatchDeinit (TermState_Deinit (Stdio_Deinit s))))"

section \<open>The arbitration loop\<close>

text \<open>
  \<open>Main.Terminate\<close>: broadcast, teardown, then \<open>syscall.Kill(os.Getpid(), sig)\<close>, whose
  error is ignored.
\<close>

definition Terminate :: "Signal \<Rightarrow> Main \<Rightarrow> Main" where
  "Terminate sig s = emit (SyscallKill sig) (Deinit (Cmd_Broadcast sig s))"

text \<open>
  What one \<open>select\<close> of \<open>Main.CmdRun\<close> receives: a value on \<open>ChanRestart\<close>, together with
  the clock that \<open>time.Now()\<close> then reads, or a signal on \<open>ChanKill\<close>.
\<close>

datatype Recv = RecvRestart Time | RecvKill Signal

text \<open>
  The loop of \<open>CmdRun\<close> over the values that its channels deliver. The result says whether
  the loop has returned: when the values run out it is blocked in \<open>select\<close>.
\<close>

fun CmdRun_loop :: "Recv list \<Rightarrow> Main \<Rightarrow> Main \<times> bool" where
  "CmdRun_loop [] s = (s, False)"
| "CmdRun_loop (RecvRestart now # rs) s =
     CmdRun_loop rs (Cmd_Restart (Opt_TermInter (set_lastRestart now s)))"
| "CmdRun_loop (RecvKill sig # rs) s = (Terminate sig s, True)"

definition CmdRun :: "Recv list \<Rightarrow> Main \<Rightarrow> Main \<times> bool" where
  "CmdRun rs s = CmdRun_loop rs (if \<not> Postpone (Opt s) then Cmd_Restart s else s)"

text \<open>
  How a run of \<open>CmdRun\<close> stands: blocked in \<open>select\<close>, returned after the given kill
  signal, or left by a panic.
\<close>

datatype RunEnd = Blocked | Returned Signal | Panicked error

text \<open>
  What the environment decides while \<open>Run\<close> executes. \<open>CallPanic n\<close> is the outcome of the
  call number \<open>n\<close>, counted from 0 in program order, that \<open>CmdRun\<close> makes to \<open>Cmd.Restart\<close>,
  \<open>Opt.TermInter\<close> or \<open>Cmd.Broadcast\<close>, which are declared outside \<open>gow_main.go\<close>: a panic
  value, or \<open>None\<close> when the call returns. \<open>SignalEnds\<close> says whether the signal that
  \<open>Terminate\<close> raises against the process, which the Go runtime handles by default once
  \<open>signal.Stop\<close> has run, ends the process before \<open>os.Exit\<close> is reached.
\<close>

record RunEnv =
  CallPanic :: "nat \<Rightarrow> error option"
  SignalEnds :: bool

text \<open>The call number \<open>n\<close>: it panics and changes nothing, or it returns.\<close>

definition call :: "RunEnv \<Rightarrow> nat \<Rightarrow> (Main \<Rightarrow> Main) \<Rightarrow> Main \<Rightarrow> Main \<times> error option" where
  "call renv n f s = (case CallPanic renv n of Some e \<Rightarrow> (s, Some e) | None \<Rightarrow> (f s, None))"

text \<open>\<open>Main.Terminate\<close>, where the broadcast may panic.\<close>

definition Terminate_env :: "RunEnv \<Rightarrow> nat \<Rightarrow> Signal \<Rightarrow> Main \<Rightarrow> Main \<times> error option" where
  "Terminate_env renv n sig =
     run_steps [call renv n (Cmd_Broadcast sig), ok Deinit, ok (emit (SyscallKill sig))]"

text \<open>
  The loop of \<open>CmdRun\<close> and \<open>CmdRun\<close> itself, where the calls may panic; \<open>n\<close> is the number
  of the next call. A panic leaves the loop at once, with the state as it is. When no call
  panics this is \<open>CmdRun\<close> (lemma \<open>Run_no_panic\<close>).
\<close>

fun CmdRun_loop_env :: "RunEnv \<Rightarrow> nat \<Rightarrow> Recv list \<Rightarrow> Main \<Rightarrow> Main \<times> RunEnd" where
  "CmdRun_loop_env renv n [] s = (s, Blocked)"
| "CmdRun_loop_env renv n (RecvRestart now # rs) s =
     (case run_steps
             [ok (set_lastRestart now), call renv n Opt_TermInter, call renv (n + 1) Cmd_Restart] s
      of (s', Some e) \<Rightarrow> (s', Panicked e)
       | (s', None) \<Rightarrow> CmdRun_loop_env renv (n + 2) rs s')"
| "CmdRun_loop_env renv n (RecvKill sig # rs) s =
     (case Terminate_env renv n sig s of
        (s', Some e) \<Rightarrow> (s', Panicked e)
      | (s', None) \<Rightarrow> (s', Returned sig))"

definition CmdRun_env :: "RunEnv \<Rightarrow> Recv list \<Rightarrow> Main \<Rightarrow> Main \<times> RunEnd" where
  "CmdRun_env renv rs s =
     (if \<not> Postpone (Opt s)
      then (case call renv 0 Cmd_Restart s of
              (s', Some e) \<Rightarrow> (s', Panicked e)
            | (s', None) \<Rightarrow> CmdRun_loop_env renv 1 rs s')
      else CmdRun_loop_env renv 0 rs s)"

text \<open>
  \<open>Main.Run\<close> starts the relay, the signal task and the watcher as goroutines, whose
  sends reach \<open>CmdRun\<close> through the channels, and then runs \<open>CmdRun\<close>.
\<close>

definition Run :: "RunEnv \<Rightarrow> Recv list \<Rightarrow> Main \<Rightarrow> Main \<times> RunEnd" where
  "Run renv rs s = CmdRun_env renv rs s"

section \<open>Program exit\<close>

text \<open>\<open>Main.Exit\<close>, with the value of \<open>gg.AnyErrTraced(recover())\<close> as argument.\<close>

definition Exit :: "error option \<Rightarrow> Main \<Rightarrow> Main \<times> int" where
  "Exit r s =
     (case r of
        Some err \<Rightarrow> (emit (OsExit 1) (Opt_LogErr err s), 1)
      | None \<Rightarrow> (emit (OsExit 0) s, 0))"

text \<open>How the process ends: by \<open>os.Exit\<close> with a status, or by a signal.\<close>

datatype Outcome = ExitedWith int | EndedBySignal Signal

text \<open>
  The function \<open>main\<close>. The deferred calls run in reverse order, \<open>Deinit\<close> and then \<open>Exit\<close>,
  after a panic in \<open>Init\<close> or in \<open>Run\<close> as well as after a return. When \<open>Run\<close> returns,
  \<open>Terminate\<close> has raised the kill signal against the process itself: either that signal
  ends the process, or the deferred calls run and \<open>Exit\<close> ends it. The outcome is \<open>None\<close>
  while \<open>Run\<close> has not returned.
\<close>

definition main :: "InitEnv \<Rightarrow> RunEnv \<Rightarrow> Recv list \<Rightarrow> Main \<times> Outcome option" where
  "main env renv rs =
     (case Init env zero_Main of
        (s1, Some e) \<Rightarrow>
          (case Exit (Some e) (Deinit s1) of (s3, code) \<Rightarrow> (s3, Some (ExitedWith code)))
      | (s1, None) \<Rightarrow>
          (case Run renv rs s1 of
             (s2, Blocked) \<Rightarrow> (s2, None)
           | (s2, Panicked e) \<Rightarrow>
               (case Exit (Some e) (Deinit s2) of (s3, code) \<Rightarrow> (s3, Some (ExitedWith code)))
           | (s2, Returned sig) \<Rightarrow>
               if SignalEnds renv then (s2, Some (EndedBySignal sig))
               else (case Exit None (Deinit s2) of (s3, code) \<Rightarrow> (s3, Some (ExitedWith code)))))"

section \<open>Descriptions used in the theorems\<close>

text \<open>
  The events of a teardown from \<open>s\<close>, as the resources held in \<open>s\<close> determine them: one
  event for each resource that is held, in the order of the statements of \<open>Deinit\<close>.
\<close>

definition Deinit_events :: "Main \<Rightarrow> Event list" where
  "Deinit_events s =
     (if Relaying (Stdio s) then [StdioStop] else []) @
     (if Saved (TermState s) then [TermRestore] else []) @
     (if Watcher s \<noteq> None then [WatcherDeinit] else []) @
     (if ChanSignals s \<noteq> None \<and> sigNotify s \<noteq> {} then [SignalStop] else []) @
     (if Held (Cmd s) then [CmdRelease] else [])"

text \<open>The number of restart requests that the loop takes before it returns.\<close>

fun served :: "Recv list \<Rightarrow> nat" where
  "served [] = 0"
| "served (RecvRestart t # rs) = Suc (served rs)"
| "served (RecvKill sig # rs) = 0"

text \<open>
  A sample run: verbose, lazy, a debounce of 100 ns, every component initialised, the clock
  at 1000 when \<open>Init\<close> ends.
\<close>

definition demo_env :: InitEnv where
  "demo_env =
     \<lparr>OptInit = Inr \<lparr>Verb = True, Lazy = True, Postpone = False, Debounce = 100\<rparr>,
      CmdInit = Inr \<lparr>Held = False, Proc = NotStarted\<rparr>,
      WatchNotifyInit = None,
      TermStateInit = Inr \<lparr>Saved = True\<rparr>,
      StdioInit = Inr \<lparr>Relaying = True\<rparr>,
      Now = 1000\<rparr>"

definition demo_Main :: Main where
  "demo_Main = fst (Init demo_env zero_Main)"

text \<open>A run in which the watcher cannot be created.\<close>

definition demo_env_fail :: InitEnv where
  "demo_env_fail = demo_env\<lparr>WatchNotifyInit := Some (Panic ''watch'')\<rparr>"

definition allow_go :: "Opt \<Rightarrow> string \<Rightarrow> bool" where
  "allow_go opt path = (path = ''main.go'')"

definition demo_Main_fail :: Main where
  "demo_Main_fail = fst (Init demo_env_fail zero_Main)"

text \<open>Every resource that the teardown releases is released.\<close>

definition released :: "Main \<Rightarrow> bool" where
  "released s =
     (\<not> Relaying (Stdio s) \<and> \<not> Saved (TermState s) \<and> Watcher s = None \<and>
      sigNotify s = {} \<and> \<not> Held (Cmd s))"

text \<open>Signals are only ever subscribed through the channel \<open>ChanSignals\<close>.\<close>

definition sub_inv :: "Main \<Rightarrow> bool" where
  "sub_inv s = (ChanSignals s = None \<longrightarrow> sigNotify s = {})"

text \<open>
  Three environments for \<open>Run\<close>: no call panics and the process outlives the signal it
  raises; no call panics and that signal ends the process; the call number 2 panics, which is
  the \<open>Cmd.Restart\<close> of the first restart request after a bootstrap restart.
\<close>

definition demo_run :: RunEnv where
  "demo_run = \<lparr>CallPanic = (\<lambda>n. None), SignalEnds = False\<rparr>"

definition demo_run_signal :: RunEnv where
  "demo_run_signal = \<lparr>CallPanic = (\<lambda>n. None), SignalEnds = True\<rparr>"

definition demo_run_panic :: RunEnv where
  "demo_run_panic =
     \<lparr>CallPanic = (\<lambda>n. if n = 2 then Some (Panic ''spawn'') else None), SignalEnds = False\<rparr>"

section \<open>Theorems\<close>

subsection \<open>What each operation changes\<close>

lemma emit_sel [simp]:
  "Opt (emit e s) = Opt s" "Cmd (emit e s) = Cmd s" "Stdio (emit e s) = Stdio s"
  "Watcher (emit e s) = Watcher s" "TermState (emit e s) = TermState s"
  "ChanSignals (emit e s) = ChanSignals s" "ChanRestart (emit e s) = ChanRestart s"
  "ChanKill (emit e s) = ChanKill s" "lastRestart (emit e s) = lastRestart s"
  "sigNotify (emit e s) = sigNotify s" "trace (emit e s) = trace s @ [e]"
  by (simp_all add: emit_def)

lemma Stdio_Deinit_sel [simp]:
  "Opt (Stdio_Deinit s) = Opt s" "Cmd (Stdio_Deinit s) = Cmd s"
  "Relaying (Stdio (Stdio_Deinit s)) = False"
  "Watcher (Stdio_Deinit s) = Watcher s" "TermState (Stdio_Deinit s) = TermState s"
  "ChanSignals (Stdio_Deinit s) = ChanSignals s"
  "ChanRestart (Stdio_Deinit s) = ChanRestart s"
  "ChanKill (Stdio_Deinit s) = ChanKill s" "lastRestart (Stdio_Deinit s) = lastRestart s"
  "sigNotify (Stdio_Deinit s) = sigNotify s"
  "trace (Stdio_Deinit s) = trace s @ (if Relaying (Stdio s) then [StdioStop] else [])"
  by (simp_all add: Stdio_Deinit_def)

lemma TermState_Deinit_sel [simp]:
  "Opt (TermState_Deinit s) = Opt s" "Cmd (TermState_Deinit s) = Cmd s"
  "Stdio (TermState_Deinit s) = Stdio s"
  "Watcher (TermState_Deinit s) = Watcher s" "Saved (TermState (TermState_Deinit s)) = False"
  "ChanSignals (TermState_Deinit s) = ChanSignals s"
  "ChanRestart (TermState_Deinit s) = ChanRestart s"
  "ChanKill (TermState_Deinit s) = ChanKill s"
  "lastRestart (TermState_Deinit s) = lastRestart s"
  "sigNotify (TermState_Deinit s) = sigNotify s"
  "trace (TermState_Deinit s) = trace s @ (if Saved (TermState s) then [TermRestore] else [])"
  by (simp_all add: TermState_Deinit_def)

lemma WatchDeinit_sel [simp]:
  "Opt (WatchDeinit s) = Opt s" "Cmd (WatchDeinit s) = Cmd s"
  "Stdio (WatchDeinit s) = Stdio s"
  "Watcher (WatchDeinit s) = None" "TermState (WatchDeinit s) = TermState s"
  "ChanSignals (WatchDeinit s) = ChanSignals s"
  "ChanRestart (WatchDeinit s) = ChanRestart s"
  "ChanKill (WatchDeinit s) = ChanKill s" "lastRestart (WatchDeinit s) = lastRestart s"
  "sigNotify (WatchDeinit s) = sigNotify s"
  "trace (WatchDeinit s) = trace s @ (if Watcher s \<noteq> None then [WatcherDeinit] else [])"
  by (simp_all add: WatchDeinit_def)

lemma SigDeinit_sel [simp]:
  "Opt (SigDeinit s) = Opt s" "Cmd (SigDeinit s) = Cmd s"
  "Stdio (SigDeinit s) = Stdio s"
  "Watcher (SigDeinit s) = Watcher s" "TermState (SigDeinit s) = TermState s"
  "ChanSignals (SigDeinit s) = ChanSignals s"
  "ChanRestart (SigDeinit s) = ChanRestart s"
  "ChanKill (SigDeinit s) = ChanKill s" "lastRestart (SigDeinit s) = lastRestart s"
  "sigNotify (SigDeinit s) = (if ChanSignals s \<noteq> None then {} else sigNotify s)"
  "trace (SigDeinit s) =
     trace s @ (if ChanSignals s \<noteq> None \<and> sigNotify s \<noteq> {} then [SignalStop] else [])"
  by (simp_all add: SigDeinit_def signal_Stop_def)

lemma Cmd_Deinit_sel [simp]:
  "Opt (Cmd_Deinit s) = Opt s" "Held (Cmd (Cmd_Deinit s)) = False"
  "Proc (Cmd (Cmd_Deinit s)) = Proc (Cmd s)"
  "Stdio (Cmd_Deinit s) = Stdio s"
  "Watcher (Cmd_Deinit s) = Watcher s" "TermState (Cmd_Deinit s) = TermState s"
  "ChanSignals (Cmd_Deinit s) = ChanSignals s"
  "ChanRestart (Cmd_Deinit s) = ChanRestart s"
  "ChanKill (Cmd_Deinit s) = ChanKill s" "lastRestart (Cmd_Deinit s) = lastRestart s"
  "sigNotify (Cmd_Deinit s) = sigNotify s"
  "trace (Cmd_Deinit s) = trace s @ (if Held (Cmd s) then [CmdRelease] else [])"
  by (simp_all add: Cmd_Deinit_def)

lemma Cmd_Restart_sel [simp]:
  "Opt (Cmd_Restart s) = Opt s" "Cmd (Cmd_Restart s) = \<lparr>Held = True, Proc = Running\<rparr>"
  "Stdio (Cmd_Restart s) = Stdio s"
  "Watcher (Cmd_Restart s) = Watcher s" "TermState (Cmd_Restart s) = TermState s"
  "ChanSignals (Cmd_Restart s) = ChanSignals s"
  "ChanRestart (Cmd_Restart s) = ChanRestart s"
  "ChanKill (Cmd_Restart s) = ChanKill s" "lastRestart (Cmd_Restart s) = lastRestart s"
  "sigNotify (Cmd_Restart s) = sigNotify s"
  "trace (Cmd_Restart s) = trace s @ [CmdRestart]"
  by (simp_all add: Cmd_Restart_def)

lemma set_lastRestart_sel [simp]:
  "Opt (set_lastRestart t s) = Opt s" "Cmd (set_lastRestart t s) = Cmd s"
  "Stdio (set_lastRestart t s) = Stdio s"
  "Watcher (set_lastRestart t s) = Watcher s" "TermState (set_lastRestart t s) = TermState s"
  "ChanSignals (set_lastRestart t s) = ChanSignals s"
  "ChanRestart (set_lastRestart t s) = ChanRestart s"
  "ChanKill (set_lastRestart t s) = ChanKill s" "lastRestart (set_lastRestart t s) = t"
  "sigNotify (set_lastRestart t s) = sigNotify s"
  "trace (set_lastRestart t s) = trace s @ [SetLastRestart t]"
  by (simp_all add: set_lastRestart_def)

lemma emitted_emit: "emitted (emit e) s = [e]"
  by (simp add: emitted_def)

lemma emitted_append: "trace (f s) = trace s @ es \<Longrightarrow> emitted f s = es"
  by (simp add: emitted_def)

subsection \<open>Teardown\<close>

lemma Stdio_Deinit_skip: "\<not> Relaying (Stdio s) \<Longrightarrow> Stdio_Deinit s = s"
  by (simp add: Stdio_Deinit_def)

lemma TermState_Deinit_skip: "\<not> Saved (TermState s) \<Longrightarrow> TermState_Deinit s = s"
  by (simp add: TermState_Deinit_def)

lemma WatchDeinit_skip: "Watcher s = None \<Longrightarrow> WatchDeinit s = s"
  by (simp add: WatchDeinit_def)

lemma SigDeinit_skip: "ChanSignals s = None \<or> sigNotify s = {} \<Longrightarrow> SigDeinit s = s"
  by (auto simp add: SigDeinit_def signal_Stop_def)

lemma Cmd_Deinit_skip: "\<not> Held (Cmd s) \<Longrightarrow> Cmd_Deinit s = s"
  by (simp add: Cmd_Deinit_def)

lemma Deinit_sel [simp]:
  "Opt (Deinit s) = Opt s" "Proc (Cmd (Deinit s)) = Proc (Cmd s)"
  "ChanSignals (Deinit s) = ChanSignals s" "ChanRestart (Deinit s) = ChanRestart s"
  "ChanKill (Deinit s) = ChanKill s" "lastRestart (Deinit s) = lastRestart s"
  "sigNotify (Deinit s) = (if ChanSignals s \<noteq> None then {} else sigNotify s)"
  by (simp_all add: Deinit_def)

lemma trace_Deinit: "trace (Deinit s) = trace s @ Deinit_events s"
  by (simp add: Deinit_def Deinit_events_def)

lemma Deinit_released:
  "\<not> Relaying (Stdio (Deinit s))" "\<not> Saved (TermState (Deinit s))" "Watcher (Deinit s) = None"
  "ChanSignals (Deinit s) = None \<or> sigNotify (Deinit s) = {}" "\<not> Held (Cmd (Deinit s))"
  by (simp_all add: Deinit_def)

lemma Deinit_skip:
  assumes "\<not> Relaying (Stdio s)" "\<not> Saved (TermState s)" "Watcher s = None"
    "ChanSignals s = None \<or> sigNotify s = {}" "\<not> Held (Cmd s)"
  shows "Deinit s = s"
  using assms
  by (simp add: Deinit_def Stdio_Deinit_skip TermState_Deinit_skip WatchDeinit_skip
      SigDeinit_skip Cmd_Deinit_skip)

lemma Deinit_Deinit: "Deinit (Deinit s) = Deinit s"
  by (rule Deinit_skip) (rule Deinit_released)+

subsection \<open>The sample run\<close>

lemma Init_demo:
  "Init demo_env zero_Main =
     (\<lparr>Opt = \<lparr>Verb = True, Lazy = True, Postpone = False, Debounce = 100\<rparr>,
       Cmd = \<lparr>Held = False, Proc = NotStarted\<rparr>,
       Stdio = \<lparr>Relaying = True\<rparr>,
       Watcher = Some WatchNotify,
       TermState = \<lparr>Saved = True\<rparr>,
       ChanSignals = Some 1, ChanRestart = Some 0, ChanKill = Some 0,
       lastRestart = 1000, sigNotify = set KILL_SIGS_OS,
       trace = [SignalNotify KILL_SIGS_OS, SetLastRestart 1000]\<rparr>, None)"
  by (simp add: Init_def demo_env_def zero_Main_def Opt_Init_def Cmd_Init_def ok_def
      SigInit_def signal_Notify_def WatchInit_def TermState_Init_def Stdio_Init_def
      set_lastRestart_def Chan_Init_def Chan_InitCap_def emit_def)

lemma demo_Main_sel [simp]:
  "Opt demo_Main = \<lparr>Verb = True, Lazy = True, Postpone = False, Debounce = 100\<rparr>"
  "Cmd demo_Main = \<lparr>Held = False, Proc = NotStarted\<rparr>"
  "Stdio demo_Main = \<lparr>Relaying = True\<rparr>"
  "Watcher demo_Main = Some WatchNotify"
  "TermState demo_Main = \<lparr>Saved = True\<rparr>"
  "ChanSignals demo_Main = Some 1" "ChanRestart demo_Main = Some 0"
  "ChanKill demo_Main = Some 0" "lastRestart demo_Main = 1000"
  "sigNotify demo_Main = set KILL_SIGS_OS"
  "trace demo_Main = [SignalNotify KILL_SIGS_OS, SetLastRestart 1000]"
  by (simp_all add: demo_Main_def Init_demo)

lemma zero_Main_sel [simp]:
  "Opt zero_Main = \<lparr>Verb = False, Lazy = False, Postpone = False, Debounce = 0\<rparr>"
  "Cmd zero_Main = \<lparr>Held = False, Proc = NotStarted\<rparr>"
  "Stdio zero_Main = \<lparr>Relaying = False\<rparr>"
  "Watcher zero_Main = None"
  "TermState zero_Main = \<lparr>Saved = False\<rparr>"
  "ChanSignals zero_Main = None" "ChanRestart zero_Main = None"
  "ChanKill zero_Main = None" "lastRestart zero_Main = 0"
  "sigNotify zero_Main = {}"
  "trace zero_Main = []"
  by (simp_all add: zero_Main_def)

lemma Init_demo_fail:
  "Init demo_env_fail zero_Main =
     (\<lparr>Opt = \<lparr>Verb = True, Lazy = True, Postpone = False, Debounce = 100\<rparr>,
       Cmd = \<lparr>Held = False, Proc = NotStarted\<rparr>,
       Stdio = \<lparr>Relaying = False\<rparr>,
       Watcher = None,
       TermState = \<lparr>Saved = False\<rparr>,
       ChanSignals = Some 1, ChanRestart = Some 0, ChanKill = Some 0,
       lastRestart = 0, sigNotify = set KILL_SIGS_OS,
       trace = [SignalNotify KILL_SIGS_OS]\<rparr>, Some (Panic ''watch''))"
  by (simp add: Init_def demo_env_fail_def demo_env_def zero_Main_def Opt_Init_def Cmd_Init_def
      ok_def SigInit_def signal_Notify_def WatchInit_def Chan_Init_def Chan_InitCap_def emit_def)

lemma demo_Main_fail_sel [simp]:
  "Opt demo_Main_fail = \<lparr>Verb = True, Lazy = True, Postpone = False, Debounce = 100\<rparr>"
  "Cmd demo_Main_fail = \<lparr>Held = False, Proc = NotStarted\<rparr>"
  "Stdio demo_Main_fail = \<lparr>Relaying = False\<rparr>"
  "Watcher demo_Main_fail = None"
  "TermState demo_Main_fail = \<lparr>Saved = False\<rparr>"
  "ChanSignals demo_Main_fail = Some 1" "ChanRestart demo_Main_fail = Some 0"
  "ChanKill demo_Main_fail = Some 0" "lastRestart demo_Main_fail = 0"
  "sigNotify demo_Main_fail = set KILL_SIGS_OS"
  "trace demo_Main_fail = [SignalNotify KILL_SIGS_OS]"
  by (simp_all add: demo_Main_fail_def Init_demo_fail)

lemma Cmd_Broadcast_sel [simp]:
  "Opt (Cmd_Broadcast sig s) = Opt s" "Cmd (Cmd_Broadcast sig s) = Cmd s"
  "Stdio (Cmd_Broadcast sig s) = Stdio s"
  "Watcher (Cmd_Broadcast sig s) = Watcher s" "TermState (Cmd_Broadcast sig s) = TermState s"
  "ChanSignals (Cmd_Broadcast sig s) = ChanSignals s"
  "ChanRestart (Cmd_Broadcast sig s) = ChanRestart s"
  "ChanKill (Cmd_Broadcast sig s) = ChanKill s"
  "lastRestart (Cmd_Broadcast sig s) = lastRestart s"
  "sigNotify (Cmd_Broadcast sig s) = sigNotify s"
  "trace (Cmd_Broadcast sig s) = trace s @ [CmdBroadcast sig]"
  by (simp_all add: Cmd_Broadcast_def)

lemma Opt_TermInter_sel [simp]:
  "Opt (Opt_TermInter s) = Opt s" "Cmd (Opt_TermInter s) = Cmd s"
  "Stdio (Opt_TermInter s) = Stdio s"
  "Watcher (Opt_TermInter s) = Watcher s" "TermState (Opt_TermInter s) = TermState s"
  "ChanSignals (Opt_TermInter s) = ChanSignals s"
  "ChanRestart (Opt_TermInter s) = ChanRestart s"
  "ChanKill (Opt_TermInter s) = ChanKill s" "lastRestart (Opt_TermInter s) = lastRestart s"
  "sigNotify (Opt_TermInter s) = sigNotify s"
  "trace (Opt_TermInter s) = trace s @ [TermInter]"
  by (simp_all add: Opt_TermInter_def)

lemma Deinit_events_Cmd_Broadcast [simp]:
  "Deinit_events (Cmd_Broadcast sig s) = Deinit_events s"
  by (simp add: Deinit_events_def)

lemma set_Deinit_events:
  "set (Deinit_events s) \<subseteq> {StdioStop, TermRestore, WatcherDeinit, SignalStop, CmdRelease}"
  by (auto simp: Deinit_events_def)

lemma emitted_Deinit: "emitted Deinit s = Deinit_events s"
  by (rule emitted_append) (rule trace_Deinit)

lemma Terminate_sel [simp]:
  "Opt (Terminate sig s) = Opt s" "Proc (Cmd (Terminate sig s)) = Proc (Cmd s)"
  "ChanSignals (Terminate sig s) = ChanSignals s"
  "ChanRestart (Terminate sig s) = ChanRestart s"
  "ChanKill (Terminate sig s) = ChanKill s" "lastRestart (Terminate sig s) = lastRestart s"
  "sigNotify (Terminate sig s) = (if ChanSignals s \<noteq> None then {} else sigNotify s)"
  "trace (Terminate sig s) = trace s @ CmdBroadcast sig # Deinit_events s @ [SyscallKill sig]"
  by (simp_all add: Terminate_def trace_Deinit)

lemma emitted_Terminate:
  "emitted (Terminate sig) s = CmdBroadcast sig # Deinit_events s @ [SyscallKill sig]"
  by (rule emitted_append) simp

lemma Terminate_no_restart: "CmdRestart \<notin> set (emitted (Terminate sig) s)"
  using set_Deinit_events [of s] by (auto simp: emitted_Terminate)

lemma CmdRun_loop_snd: "snd (CmdRun_loop rs s) \<longleftrightarrow> (\<exists>sig. RecvKill sig \<in> set rs)"
  by (induction rs s rule: CmdRun_loop.induct) auto

lemma CmdRun_loop_kill:
  "\<forall>x. RecvKill x \<notin> set rs1 \<Longrightarrow>
   CmdRun_loop (rs1 @ RecvKill sig # rs2) s = (Terminate sig (fst (CmdRun_loop rs1 s)), True)"
  by (induction rs1 s rule: CmdRun_loop.induct) auto

lemma CmdRun_loop_trace:
  "\<exists>es. trace (fst (CmdRun_loop rs s)) = trace s @ es \<and> count_list es CmdRestart = served rs"
proof (induction rs s rule: CmdRun_loop.induct)
  case (1 s)
  then show ?case by simp
next
  case (2 now rs s)
  then obtain es where
    "trace (fst (CmdRun_loop rs (Cmd_Restart (Opt_TermInter (set_lastRestart now s))))) =
       trace (Cmd_Restart (Opt_TermInter (set_lastRestart now s))) @ es"
    "count_list es CmdRestart = served rs"
    by blast
  then show ?case by simp
next
  case (3 sig rs s)
  have "count_list (CmdBroadcast sig # Deinit_events s @ [SyscallKill sig]) CmdRestart = 0"
    using set_Deinit_events [of s] by (auto simp: count_list_0_iff)
  then show ?case by simp
qed

lemma CmdRun_loop_Opt [simp]: "Opt (fst (CmdRun_loop rs s)) = Opt s"
  by (induction rs s rule: CmdRun_loop.induct) auto

lemma CmdRun_loop_sel [simp]:
  "ChanSignals (fst (CmdRun_loop rs s)) = ChanSignals s"
  by (induction rs s rule: CmdRun_loop.induct) auto

lemma emitted_CmdRun_loop:
  "trace (fst (CmdRun_loop rs s)) = trace s @ emitted (\<lambda>s. fst (CmdRun_loop rs s)) s \<and>
   count_list (emitted (\<lambda>s. fst (CmdRun_loop rs s)) s) CmdRestart = served rs"
proof -
  obtain es where es: "trace (fst (CmdRun_loop rs s)) = trace s @ es"
    "count_list es CmdRestart = served rs"
    using CmdRun_loop_trace by blast
  then have "emitted (\<lambda>s. fst (CmdRun_loop rs s)) s = es"
    by (simp add: emitted_def)
  with es show ?thesis by simp
qed

lemma emitted_CmdRun:
  "emitted (\<lambda>s. fst (CmdRun rs s)) s =
     (if Postpone (Opt s) then [] else [CmdRestart]) @
     emitted (\<lambda>s. fst (CmdRun_loop rs s)) (if Postpone (Opt s) then s else Cmd_Restart s)"
proof (cases "Postpone (Opt s)")
  case True
  then show ?thesis by (simp add: CmdRun_def emitted_def)
next
  case False
  have "trace (fst (CmdRun_loop rs (Cmd_Restart s))) =
      trace (Cmd_Restart s) @ emitted (\<lambda>s. fst (CmdRun_loop rs s)) (Cmd_Restart s)"
    using emitted_CmdRun_loop [of rs "Cmd_Restart s"] by blast
  then have "trace (fst (CmdRun rs s)) =
      trace s @ CmdRestart # emitted (\<lambda>s. fst (CmdRun_loop rs s)) (Cmd_Restart s)"
    using False by (simp add: CmdRun_def)
  then have "emitted (\<lambda>s. fst (CmdRun rs s)) s =
      CmdRestart # emitted (\<lambda>s. fst (CmdRun_loop rs s)) (Cmd_Restart s)"
    by (rule emitted_append)
  with False show ?thesis by simp
qed

lemma SigInit_sel [simp]:
  "Opt (SigInit s) = Opt s" "Cmd (SigInit s) = Cmd s" "Stdio (SigInit s) = Stdio s"
  "Watcher (SigInit s) = Watcher s" "TermState (SigInit s) = TermState s"
  "ChanSignals (SigInit s) = Chan_InitCap 1 (ChanSignals s)"
  "ChanRestart (SigInit s) = ChanRestart s"
  "ChanKill (SigInit s) = ChanKill s" "lastRestart (SigInit s) = lastRestart s"
  "sigNotify (SigInit s) = sigNotify s \<union> set KILL_SIGS_OS"
  "trace (SigInit s) = trace s @ [SignalNotify KILL_SIGS_OS]"
  by (simp_all add: SigInit_def signal_Notify_def)

lemma Chan_InitCap_Some [simp]:
  "Chan_InitCap n c \<noteq> None" "\<exists>k. Chan_InitCap n c = Some k"
  by (simp_all add: Chan_InitCap_def split: option.splits)

lemma Init_ok:
  assumes "snd (Init env s) = None"
  shows "\<exists>opt c t io.
    OptInit env = Inr opt \<and> CmdInit env = Inr c \<and> WatchNotifyInit env = None \<and>
    TermStateInit env = Inr t \<and> StdioInit env = Inr io \<and>
    fst (Init env s) =
      set_lastRestart (Now env)
        ((SigInit (s\<lparr>Opt := opt, ChanRestart := Chan_Init (ChanRestart s),
                     ChanKill := Chan_Init (ChanKill s), Cmd := c\<rparr>))
           \<lparr>Watcher := Some WatchNotify, TermState := t, Stdio := io\<rparr>)"
  using assms
  by (simp add: Init_def Opt_Init_def Cmd_Init_def WatchInit_def TermState_Init_def
      Stdio_Init_def ok_def split: sum.splits option.splits)

lemma Init_ok_sel:
  assumes "snd (Init env s) = None"
  shows "lastRestart (fst (Init env s)) = Now env"
    "trace (fst (Init env s)) = trace s @ [SignalNotify KILL_SIGS_OS, SetLastRestart (Now env)]"
    "OptInit env = Inr (Opt (fst (Init env s)))"
    "ChanSignals (fst (Init env s)) \<noteq> None"
  using Init_ok [OF assms] by auto

lemma Init_sub_inv: "sub_inv s \<Longrightarrow> sub_inv (fst (Init env s))"
  by (simp add: Init_def Opt_Init_def Cmd_Init_def WatchInit_def TermState_Init_def
      Stdio_Init_def ok_def sub_inv_def split: sum.splits option.splits)

lemma CmdRun_loop_sub_inv: "sub_inv s \<Longrightarrow> sub_inv (fst (CmdRun_loop rs s))"
  by (induction rs s rule: CmdRun_loop.induct) (auto simp: sub_inv_def)

lemma sub_inv_Cmd_Restart [simp]: "sub_inv (Cmd_Restart s) = sub_inv s"
  by (simp add: sub_inv_def)

lemma CmdRun_sub_inv: "sub_inv s \<Longrightarrow> sub_inv (fst (CmdRun rs s))"
  by (simp add: CmdRun_def CmdRun_loop_sub_inv)

lemma Exit_sel [simp]:
  "snd (Exit r s) = (case r of None \<Rightarrow> 0 | Some err \<Rightarrow> 1)"
  "trace (fst (Exit r s)) =
     trace s @ (case r of None \<Rightarrow> [OsExit 0] | Some err \<Rightarrow> [LogErr err, OsExit 1])"
  "Stdio (fst (Exit r s)) = Stdio s" "TermState (fst (Exit r s)) = TermState s"
  "Watcher (fst (Exit r s)) = Watcher s" "sigNotify (fst (Exit r s)) = sigNotify s"
  "Cmd (fst (Exit r s)) = Cmd s"
  by (simp_all add: Exit_def Opt_LogErr_def split: option.splits)

lemma released_Deinit: "sub_inv s \<Longrightarrow> released (fst (Exit r (Deinit s)))"
  using Deinit_released [of s] by (auto simp: released_def sub_inv_def)

lemma zero_sub_inv: "sub_inv zero_Main"
  by (simp add: sub_inv_def)

lemma Terminate_released [simp]:
  "\<not> Relaying (Stdio (Terminate sig s))" "\<not> Saved (TermState (Terminate sig s))"
  "Watcher (Terminate sig s) = None" "\<not> Held (Cmd (Terminate sig s))"
  using Deinit_released [of "Cmd_Broadcast sig s"] by (simp_all add: Terminate_def)

lemma SigRun_body_trace:
  "SigRun_body val s = s\<lparr>trace := trace s @ emitted (SigRun_body val) s\<rparr>"
  by (cases val) (simp add: SigRun_body_def Kill_def emitted_def emit_def)

lemma SigRun_snoc: "SigRun (vals @ [val]) s = SigRun_body val (SigRun vals s)"
  by (induction vals arbitrary: s) simp_all

lemma call_cases:
  "CallPanic renv n = None \<Longrightarrow> call renv n f s = (f s, None)"
  "CallPanic renv n = Some e \<Longrightarrow> call renv n f s = (s, Some e)"
  by (simp_all add: call_def)

lemma Terminate_env_cases:
  "Terminate_env renv n sig s =
     (case CallPanic renv n of Some e \<Rightarrow> (s, Some e) | None \<Rightarrow> (Terminate sig s, None))"
  by (simp add: Terminate_env_def ok_def call_def Terminate_def split: option.splits)

lemma CmdRun_loop_env_no_panic:
  "\<forall>k. CallPanic renv k = None \<Longrightarrow>
   fst (CmdRun_loop_env renv n rs s) = fst (CmdRun_loop rs s) \<and>
   (snd (CmdRun_loop_env renv n rs s) = Blocked \<longleftrightarrow> \<not> snd (CmdRun_loop rs s)) \<and>
   (\<forall>e. snd (CmdRun_loop_env renv n rs s) \<noteq> Panicked e)"
  by (induction rs s arbitrary: n rule: CmdRun_loop.induct)
     (simp_all add: ok_def call_def Terminate_env_cases)

lemma Run_no_panic:
  "\<forall>k. CallPanic renv k = None \<Longrightarrow>
   fst (Run renv rs s) = fst (CmdRun rs s) \<and>
   (snd (Run renv rs s) = Blocked \<longleftrightarrow> \<not> snd (CmdRun rs s)) \<and>
   (\<forall>e. snd (Run renv rs s) \<noteq> Panicked e)"
  using CmdRun_loop_env_no_panic [of renv]
  by (simp add: Run_def CmdRun_env_def CmdRun_def call_cases)

lemma sub_inv_simps [simp]:
  "sub_inv (set_lastRestart t s) = sub_inv s" "sub_inv (Opt_TermInter s) = sub_inv s"
  "sub_inv (Cmd_Broadcast sig s) = sub_inv s" "sub_inv (emit e s) = sub_inv s"
  by (simp_all add: sub_inv_def)

lemma sub_inv_Terminate: "sub_inv s \<Longrightarrow> sub_inv (Terminate sig s)"
  by (simp add: sub_inv_def)

lemma released_Terminate: "sub_inv s \<Longrightarrow> released (Terminate sig s)"
  by (auto simp: released_def sub_inv_def)

lemma CmdRun_loop_env_inv:
  "sub_inv s \<Longrightarrow>
   sub_inv (fst (CmdRun_loop_env renv n rs s)) \<and>
   (\<forall>sig. snd (CmdRun_loop_env renv n rs s) = Returned sig \<longrightarrow>
      released (fst (CmdRun_loop_env renv n rs s)) \<and>
      (\<exists>es. trace (fst (CmdRun_loop_env renv n rs s)) = es @ [SyscallKill sig]))"
proof (induction rs s arbitrary: n rule: CmdRun_loop.induct)
  case (1 s)
  then show ?case by simp
next
  case (2 now rs s)
  then show ?case
    by (simp add: ok_def call_def split: option.splits)
next
  case (3 sig rs s)
  then show ?case
    by (simp add: Terminate_env_cases sub_inv_Terminate released_Terminate split: option.splits)
qed

lemma Run_inv:
  assumes "sub_inv s"
  shows "sub_inv (fst (Run renv rs s))"
    and "snd (Run renv rs s) = Returned sig \<Longrightarrow> released (fst (Run renv rs s))"
    and "snd (Run renv rs s) = Returned sig \<Longrightarrow>
         \<exists>es. trace (fst (Run renv rs s)) = es @ [SyscallKill sig]"
  using assms CmdRun_loop_env_inv [of s renv 0 rs] CmdRun_loop_env_inv [of "Cmd_Restart s" renv 1 rs]
  by (auto simp: Run_def CmdRun_env_def call_def split: option.splits)

lemma released_skip: "released s \<Longrightarrow> Deinit s = s"
  by (rule Deinit_skip) (simp_all add: released_def)

lemma main_Init_panic:
  "snd (Init env zero_Main) = Some e \<Longrightarrow>
   main env renv rs = (fst (Exit (Some e) (Deinit (fst (Init env zero_Main)))), Some (ExitedWith 1))"
  by (cases "Init env zero_Main") (simp add: main_def case_prod_beta)

lemma main_Run_panic:
  "snd (Init env zero_Main) = None \<Longrightarrow>
   snd (Run renv rs (fst (Init env zero_Main))) = Panicked e \<Longrightarrow>
   main env renv rs =
     (fst (Exit (Some e) (Deinit (fst (Run renv rs (fst (Init env zero_Main)))))),
      Some (ExitedWith 1))"
  by (cases "Init env zero_Main"; cases "Run renv rs (fst (Init env zero_Main))")
     (simp add: main_def case_prod_beta)

lemma main_exit:
  "snd (Init env zero_Main) = None \<Longrightarrow>
   snd (Run renv rs (fst (Init env zero_Main))) = Returned sig \<Longrightarrow> \<not> SignalEnds renv \<Longrightarrow>
   main env renv rs =
     (fst (Exit None (Deinit (fst (Run renv rs (fst (Init env zero_Main)))))), Some (ExitedWith 0))"
  by (cases "Init env zero_Main"; cases "Run renv rs (fst (Init env zero_Main))")
     (simp add: main_def case_prod_beta)

lemma main_signal:
  "snd (Init env zero_Main) = None \<Longrightarrow>
   snd (Run renv rs (fst (Init env zero_Main))) = Returned sig \<Longrightarrow> SignalEnds renv \<Longrightarrow>
   main env renv rs = (fst (Run renv rs (fst (Init env zero_Main))), Some (EndedBySignal sig))"
  by (cases "Init env zero_Main"; cases "Run renv rs (fst (Init env zero_Main))")
     (simp add: main_def)

lemma main_blocked:
  "snd (Init env zero_Main) = None \<Longrightarrow>
   snd (Run renv rs (fst (Init env zero_Main))) = Blocked \<Longrightarrow>
   main env renv rs = (fst (Run renv rs (fst (Init env zero_Main))), None)"
  by (cases "Init env zero_Main"; cases "Run renv rs (fst (Init env zero_Main))")
     (simp add: main_def)

lemma demo_run_sel [simp]:
  "CallPanic demo_run n = None" "\<not> SignalEnds demo_run"
  "CallPanic demo_run_signal n = None" "SignalEnds demo_run_signal"
  "CallPanic demo_run_panic n = (if n = 2 then Some (Panic ''spawn'') else None)"
  "\<not> SignalEnds demo_run_panic"
  by (simp_all add: demo_run_def demo_run_signal_def demo_run_panic_def)

lemma Run_demo:
  "Run demo_run [RecvRestart 1200] demo_Main =
     (Cmd_Restart (Opt_TermInter (set_lastRestart 1200 (Cmd_Restart demo_Main))), Blocked)"
  "Run demo_run [RecvRestart 1200, RecvKill SIGINT] demo_Main =
     (Terminate SIGINT
        (Cmd_Restart (Opt_TermInter (set_lastRestart 1200 (Cmd_Restart demo_Main)))),
      Returned SIGINT)"
  "Run demo_run_signal [RecvRestart 1200, RecvKill SIGINT] demo_Main =
     (Terminate SIGINT
        (Cmd_Restart (Opt_TermInter (set_lastRestart 1200 (Cmd_Restart demo_Main)))),
      Returned SIGINT)"
  "Run demo_run_panic [RecvRestart 1200, RecvKill SIGINT] demo_Main =
     (Opt_TermInter (set_lastRestart 1200 (Cmd_Restart demo_Main)), Panicked (Panic ''spawn''))"
  by (simp_all add: Run_def CmdRun_env_def call_def ok_def Terminate_env_cases)

subsection \<open>The claims\<close>

text \<open>
  Claim C1. For every change event, \<open>ShouldRestart\<close> returns true if and only if the event
  is non-nil, lazy mode is off or the child is not running, the path of the event satisfies
  the allow predicate, and the time elapsed since the last recorded restart is at least the
  debounce duration. \<open>OnFsEvent\<close> drops an event that fails: the state and the log are
  unchanged, and nothing is sent on the restart channel. An admitted event is logged when
  verbose and then sent on the restart channel.
\<close>

theorem C1_ShouldRestart_iff:
  "(ShouldRestart allowPath now s event \<longleftrightarrow>
      event \<noteq> None \<and>
      (\<not> Lazy (Opt s) \<or> \<not> Cmd_IsRunning (Cmd s)) \<and>
      (\<exists>ev. event = Some ev \<and> allowPath (Opt s) (Path ev)) \<and>
      Debounce (Opt s) \<le> now - lastRestart s) \<and>
   (\<not> ShouldRestart allowPath now s event \<longrightarrow> OnFsEvent allowPath now event s = s) \<and>
   (ShouldRestart allowPath now s event \<longrightarrow>
      emitted (OnFsEvent allowPath now event) s =
        (if Verb (Opt s) then [LogFsRestart event] else []) @ [ChanRestartSend])"
  by (cases event)
     (auto simp: ShouldRestart_def OnFsEvent_def Debounce_Allow_def Restart_def
                 emitted_def emit_def)

theorem C1_ShouldRestart_witness:
  "ShouldRestart allow_go 1100 demo_Main (Some (FsEvent ''main.go'')) \<and>
   emitted (OnFsEvent allow_go 1100 (Some (FsEvent ''main.go''))) demo_Main =
     [LogFsRestart (Some (FsEvent ''main.go'')), ChanRestartSend] \<and>
   \<not> ShouldRestart allow_go 1099 demo_Main (Some (FsEvent ''main.go'')) \<and>
   OnFsEvent allow_go 1099 (Some (FsEvent ''main.go'')) demo_Main = demo_Main \<and>
   \<not> ShouldRestart allow_go 1100 demo_Main None \<and>
   \<not> ShouldRestart allow_go 1100 demo_Main (Some (FsEvent ''README.md'')) \<and>
   \<not> ShouldRestart allow_go 1100 (Cmd_Restart demo_Main) (Some (FsEvent ''main.go''))"
  using C1_ShouldRestart_iff [of allow_go 1100 demo_Main "Some (FsEvent ''main.go'')"]
    C1_ShouldRestart_iff [of allow_go 1099 demo_Main "Some (FsEvent ''main.go'')"]
    C1_ShouldRestart_iff [of allow_go 1100 demo_Main None]
    C1_ShouldRestart_iff [of allow_go 1100 demo_Main "Some (FsEvent ''README.md'')"]
    C1_ShouldRestart_iff [of allow_go 1100 "Cmd_Restart demo_Main" "Some (FsEvent ''main.go'')"]
  by (simp add: allow_go_def Cmd_IsRunning_def)

text \<open>
  Claim C2. On a kill signal the loop calls \<open>Terminate\<close>, which does three things in this
  order: it broadcasts the signal it received to the child and its descendants, it runs the
  whole teardown \<open>Deinit\<close>, and it sends the same signal to the current process. No other
  signal is broadcast or raised, so nothing escalates to a forced kill. When the signal
  channel exists, as it does once \<open>SigInit\<close> has run, no signal is subscribed any more in
  the state in which the signal is raised again.
\<close>

theorem C2_Terminate_order:
  "emitted (Terminate sig) s = [CmdBroadcast sig] @ emitted Deinit s @ [SyscallKill sig] \<and>
   emitted Deinit (Cmd_Broadcast sig s) = emitted Deinit s \<and>
   (Relaying (Stdio s) \<and> Saved (TermState s) \<and> Watcher s \<noteq> None \<and>
    ChanSignals s \<noteq> None \<and> sigNotify s \<noteq> {} \<and> Held (Cmd s) \<longrightarrow>
      emitted (Terminate sig) s =
        [CmdBroadcast sig, StdioStop, TermRestore, WatcherDeinit, SignalStop, CmdRelease,
         SyscallKill sig]) \<and>
   (CmdBroadcast x \<in> set (emitted (Terminate sig) s) \<longleftrightarrow> x = sig) \<and>
   (SyscallKill x \<in> set (emitted (Terminate sig) s) \<longleftrightarrow> x = sig) \<and>
   (ChanSignals s \<noteq> None \<longrightarrow>
      Terminate sig s = emit (SyscallKill sig) (Deinit (Cmd_Broadcast sig s)) \<and>
      sigNotify (Deinit (Cmd_Broadcast sig s)) = {}) \<and>
   CmdRun_loop (RecvKill sig # rs) s = (Terminate sig s, True)"
proof -
  have d: "emitted Deinit s = Deinit_events s" for s
    by (rule emitted_append) (rule trace_Deinit)
  have b: "CmdBroadcast x \<notin> set (Deinit_events s)" "SyscallKill x \<notin> set (Deinit_events s)"
    using set_Deinit_events [of s] by auto
  show ?thesis
    by (auto simp: d b emitted_Terminate Deinit_events_def Terminate_def)
qed

theorem C2_Terminate_witness:
  "emitted (Terminate SIGINT) (Cmd_Restart demo_Main) =
     [CmdBroadcast SIGINT, StdioStop, TermRestore, WatcherDeinit, SignalStop, CmdRelease,
      SyscallKill SIGINT] \<and>
   sigNotify (Deinit (Cmd_Broadcast SIGINT (Cmd_Restart demo_Main))) = {} \<and>
   CmdBroadcast SIGKILL \<notin> set (emitted (Terminate SIGINT) (Cmd_Restart demo_Main))"
  using C2_Terminate_order [of SIGINT "Cmd_Restart demo_Main" SIGKILL]
  by (simp add: KILL_SIGS_OS_def emitted_Deinit Deinit_events_def SIGINT_def SIGKILL_def)

text \<open>
  Claim C3. \<open>CmdRun\<close> is one loop over what the restart and kill channels deliver. It
  returns if and only if a value is received on the kill channel. At the first such value
  it runs the termination sequence and returns: the result does not depend on what is
  still pending after it, and from the start of the termination sequence on no restart of
  the child is issued.
\<close>

theorem C3_CmdRun_returns_on_kill:
  "(snd (CmdRun rs s) \<longleftrightarrow> (\<exists>sig. RecvKill sig \<in> set rs)) \<and>
   (\<forall>rs1 sig rs2. (\<forall>x. RecvKill x \<notin> set rs1) \<longrightarrow>
      CmdRun (rs1 @ RecvKill sig # rs2) s = (Terminate sig (fst (CmdRun rs1 s)), True) \<and>
      trace (fst (CmdRun (rs1 @ RecvKill sig # rs2) s)) =
        trace (fst (CmdRun rs1 s)) @ emitted (Terminate sig) (fst (CmdRun rs1 s)) \<and>
      CmdRestart \<notin> set (emitted (Terminate sig) (fst (CmdRun rs1 s))))"
proof -
  have t: "trace (Terminate sig s') = trace s' @ emitted (Terminate sig) s'" for sig s'
    by (simp add: emitted_Terminate)
  show ?thesis
    by (simp add: CmdRun_def CmdRun_loop_snd CmdRun_loop_kill Terminate_no_restart t [symmetric])
qed

theorem C3_CmdRun_witness:
  "CmdRun [RecvRestart 1200, RecvKill SIGTERM, RecvRestart 1500, RecvRestart 1700] demo_Main =
     (Terminate SIGTERM (fst (CmdRun [RecvRestart 1200] demo_Main)), True) \<and>
   CmdRestart \<notin> set (emitted (Terminate SIGTERM) (fst (CmdRun [RecvRestart 1200] demo_Main))) \<and>
   \<not> snd (CmdRun [RecvRestart 1200, RecvRestart 1500] demo_Main)"
  using C3_CmdRun_returns_on_kill [of "[RecvRestart 1200, RecvRestart 1500]" demo_Main]
    C3_CmdRun_returns_on_kill [of "[]" demo_Main,
      THEN conjunct2, THEN spec, THEN spec, THEN spec,
      of "[RecvRestart 1200]" SIGTERM "[RecvRestart 1500, RecvRestart 1700]"]
  by simp

text \<open>
  Claim C4. On a value from the restart channel the loop first stores the current time as
  the last-restart timestamp, overwriting the old one, then sends the terminal-interrupt
  notification, then restarts the child through the Process Handle, and goes on waiting.
  The timestamp is written before the restart is issued.
\<close>

theorem C4_restart_branch:
  "CmdRun_loop (RecvRestart now # rs) s = CmdRun_loop rs (fst (CmdRun_loop [RecvRestart now] s)) \<and>
   fst (CmdRun_loop [RecvRestart now] s) =
     s\<lparr>lastRestart := now, Cmd := \<lparr>Held = True, Proc = Running\<rparr>,
       trace := trace s @ [SetLastRestart now, TermInter, CmdRestart]\<rparr> \<and>
   emitted (\<lambda>s. fst (CmdRun_loop [RecvRestart now] s)) s =
     [SetLastRestart now, TermInter, CmdRestart] \<and>
   lastRestart (fst (CmdRun_loop [RecvRestart now] s)) = now \<and>
   \<not> snd (CmdRun_loop [RecvRestart now] s)"
  by (simp add: emitted_def Cmd_Restart_def Opt_TermInter_def set_lastRestart_def emit_def)

text \<open>
  Claim C5. Without the postpone flag \<open>CmdRun\<close> restarts the child exactly once before it
  enters the loop, so before anything is received. With the postpone flag there is no
  restart until the first value arrives on the restart channel, and the first restart is
  the one that answers that value. In both cases the number of restarts is the number of
  restart requests taken by the loop, plus one for the bootstrap run when there is one.
\<close>

theorem C5_bootstrap_restart:
  "emitted (\<lambda>s. fst (CmdRun [] s)) s = (if Postpone (Opt s) then [] else [CmdRestart]) \<and>
   count_list (emitted (\<lambda>s. fst (CmdRun rs s)) s) CmdRestart =
     (if Postpone (Opt s) then 0 else 1) + served rs \<and>
   (\<not> Postpone (Opt s) \<longrightarrow> take 1 (emitted (\<lambda>s. fst (CmdRun rs s)) s) = [CmdRestart]) \<and>
   (Postpone (Opt s) \<longrightarrow>
      (CmdRestart \<in> set (emitted (\<lambda>s. fst (CmdRun rs s)) s) \<longleftrightarrow> 0 < served rs) \<and>
      (\<forall>t rs'. rs = RecvRestart t # rs' \<longrightarrow>
         take 3 (emitted (\<lambda>s. fst (CmdRun rs s)) s) = [SetLastRestart t, TermInter, CmdRestart]))"
proof -
  let ?s = "if Postpone (Opt s) then s else Cmd_Restart s"
  have c: "count_list (emitted (\<lambda>s. fst (CmdRun_loop rs s)) ?s) CmdRestart = served rs"
    using emitted_CmdRun_loop [of rs ?s] by blast
  have n: "emitted (\<lambda>s. fst (CmdRun_loop [] s)) ?s = []"
    by (simp add: emitted_def)
  have m: "(CmdRestart \<in> set (emitted (\<lambda>s. fst (CmdRun_loop rs s)) s)) = (0 < served rs)"
    using emitted_CmdRun_loop [of rs s] count_list_0_iff [of _ CmdRestart]
    by (metis neq0_conv)
  have h: "take 3 (emitted (\<lambda>s. fst (CmdRun_loop (RecvRestart t # rs') s)) s) =
      [SetLastRestart t, TermInter, CmdRestart]" for t rs'
  proof -
    let ?s1 = "Cmd_Restart (Opt_TermInter (set_lastRestart t s))"
    have "trace (fst (CmdRun_loop rs' ?s1)) =
        trace ?s1 @ emitted (\<lambda>s. fst (CmdRun_loop rs' s)) ?s1"
      using emitted_CmdRun_loop [of rs' ?s1] by blast
    then have "trace (fst (CmdRun_loop (RecvRestart t # rs') s)) =
        trace s @ [SetLastRestart t, TermInter, CmdRestart] @
          emitted (\<lambda>s. fst (CmdRun_loop rs' s)) ?s1"
      by simp
    then have "emitted (\<lambda>s. fst (CmdRun_loop (RecvRestart t # rs') s)) s =
        [SetLastRestart t, TermInter, CmdRestart] @ emitted (\<lambda>s. fst (CmdRun_loop rs' s)) ?s1"
      by (rule emitted_append)
    then show ?thesis by simp
  qed
  show ?thesis
    using c n m h by (simp add: emitted_CmdRun)
qed

theorem C5_bootstrap_witness:
  "emitted (\<lambda>s. fst (CmdRun [] s)) demo_Main = [CmdRestart] \<and>
   take 1 (emitted (\<lambda>s. fst (CmdRun [RecvRestart 1200] s)) demo_Main) = [CmdRestart] \<and>
   emitted (\<lambda>s. fst (CmdRun [] s)) (demo_Main\<lparr>Opt := (Opt demo_Main)\<lparr>Postpone := True\<rparr>\<rparr>) = [] \<and>
   CmdRestart \<notin> set (emitted (\<lambda>s. fst (CmdRun [RecvKill SIGINT, RecvRestart 1200] s))
      (demo_Main\<lparr>Opt := (Opt demo_Main)\<lparr>Postpone := True\<rparr>\<rparr>)) \<and>
   take 3 (emitted (\<lambda>s. fst (CmdRun [RecvRestart 1200] s))
      (demo_Main\<lparr>Opt := (Opt demo_Main)\<lparr>Postpone := True\<rparr>\<rparr>)) =
     [SetLastRestart 1200, TermInter, CmdRestart]"
  using C5_bootstrap_restart [of demo_Main "[RecvRestart 1200]"]
    C5_bootstrap_restart [of "demo_Main\<lparr>Opt := (Opt demo_Main)\<lparr>Postpone := True\<rparr>\<rparr>"
      "[RecvKill SIGINT, RecvRestart 1200]"]
    C5_bootstrap_restart [of "demo_Main\<lparr>Opt := (Opt demo_Main)\<lparr>Postpone := True\<rparr>\<rparr>"
      "[RecvRestart 1200]"]
  by simp

text \<open>
  Claim C6. The teardown releases the resources in the order stdio relay, terminal state,
  filesystem watch, signal subscription, Process Handle: from a state that holds all five
  it emits exactly these five events in this order, and from any state the events of the
  resources held, in this order. \<open>Deinit\<close> is idempotent: a second call changes nothing
  and emits nothing, also after an initialisation that failed part of the way. Each step
  is skipped when its resource is absent. In the second call \<open>SigDeinit\<close> still finds the
  channel and calls \<open>signal.Stop\<close>, which has no subscription left to undo.
\<close>

theorem C6_Deinit_order_idempotent:
  "emitted Deinit s = Deinit_events s \<and>
   (Relaying (Stdio s) \<and> Saved (TermState s) \<and> Watcher s \<noteq> None \<and>
    ChanSignals s \<noteq> None \<and> sigNotify s \<noteq> {} \<and> Held (Cmd s) \<longrightarrow>
      emitted Deinit s = [StdioStop, TermRestore, WatcherDeinit, SignalStop, CmdRelease]) \<and>
   Deinit (Deinit s) = Deinit s \<and>
   emitted Deinit (Deinit s) = [] \<and>
   (\<not> Relaying (Stdio s) \<longrightarrow> Stdio_Deinit s = s) \<and>
   (\<not> Saved (TermState s) \<longrightarrow> TermState_Deinit s = s) \<and>
   (Watcher s = None \<longrightarrow> WatchDeinit s = s) \<and>
   (ChanSignals s = None \<longrightarrow> SigDeinit s = s) \<and>
   (\<not> Held (Cmd s) \<longrightarrow> Cmd_Deinit s = s)"
proof -
  have ev: "emitted Deinit s = Deinit_events s"
    by (rule emitted_append) (rule trace_Deinit)
  have full: "Relaying (Stdio s) \<and> Saved (TermState s) \<and> Watcher s \<noteq> None \<and>
    ChanSignals s \<noteq> None \<and> sigNotify s \<noteq> {} \<and> Held (Cmd s) \<longrightarrow>
      emitted Deinit s = [StdioStop, TermRestore, WatcherDeinit, SignalStop, CmdRelease]"
    by (simp add: ev Deinit_events_def)
  have again: "emitted Deinit (Deinit s) = []"
    by (simp add: emitted_def Deinit_Deinit)
  show ?thesis
    using ev full again
    by (simp add: Deinit_Deinit Stdio_Deinit_skip TermState_Deinit_skip WatchDeinit_skip
        SigDeinit_skip Cmd_Deinit_skip)
qed

theorem C6_Deinit_witness:
  "emitted Deinit (Cmd_Restart demo_Main) =
     [StdioStop, TermRestore, WatcherDeinit, SignalStop, CmdRelease] \<and>
   emitted Deinit (Deinit (Cmd_Restart demo_Main)) = [] \<and>
   emitted Deinit zero_Main = [] \<and>
   Stdio_Deinit zero_Main = zero_Main \<and> TermState_Deinit zero_Main = zero_Main \<and>
   WatchDeinit zero_Main = zero_Main \<and> SigDeinit zero_Main = zero_Main \<and>
   Cmd_Deinit zero_Main = zero_Main \<and>
   emitted Deinit demo_Main_fail = [SignalStop] \<and>
   emitted Deinit (Deinit demo_Main_fail) = []"
  using C6_Deinit_order_idempotent [of "Cmd_Restart demo_Main"]
    C6_Deinit_order_idempotent [of zero_Main]
    C6_Deinit_order_idempotent [of demo_Main_fail]
  by (simp add: KILL_SIGS_OS_def Deinit_events_def)

text \<open>
  Claim C7. \<open>SigRun\<close> handles the signals in the order in which it takes them from the
  channel, and changes nothing but the log. A signal of \<open>KILL_SIGS\<close> is logged when
  verbose and then sent on the kill channel with \<open>Kill\<close>, a non-blocking send. Any other
  signal is logged when verbose and has no other effect: nothing is sent on a channel, no
  restart is issued and the program does not exit; without the verbose flag the state is
  left exactly as it was.
\<close>

theorem C7_SigRun_classifies:
  "SigRun (vals @ [val]) s = SigRun_body val (SigRun vals s) \<and>
   SigRun_body val s = s\<lparr>trace := trace s @ emitted (SigRun_body val) s\<rparr> \<and>
   (sig \<in> set KILL_SIGS \<longrightarrow>
      emitted (SigRun_body (SyscallSignal sig)) s =
        (if Verb (Opt s) then [LogKillSignal sig] else []) @ [ChanKillSend sig]) \<and>
   (sig \<notin> set KILL_SIGS \<longrightarrow>
      emitted (SigRun_body (SyscallSignal sig)) s =
        (if Verb (Opt s) then [LogUnknownSignal sig] else []) \<and>
      (\<not> Verb (Opt s) \<longrightarrow> SigRun_body (SyscallSignal sig) s = s))"
  by (simp add: SigRun_snoc SigRun_body_trace [symmetric])
     (simp add: SigRun_body_def Kill_def emitted_def gg_Has_def)

theorem C7_SigRun_witness:
  "emitted (SigRun_body (SyscallSignal SIGTERM)) demo_Main =
     [LogKillSignal SIGTERM, ChanKillSend SIGTERM] \<and>
   emitted (SigRun_body (SyscallSignal 10)) demo_Main = [LogUnknownSignal 10] \<and>
   SigRun_body (SyscallSignal 10) zero_Main = zero_Main"
  using C7_SigRun_classifies [of _ _ demo_Main SIGTERM] C7_SigRun_classifies [of _ _ demo_Main 10]
    C7_SigRun_classifies [of _ _ zero_Main 10]
  by (simp add: KILL_SIGS_def SIGINT_def SIGTERM_def SIGHUP_def SIGQUIT_def)

text \<open>
  Claim C8. \<open>SigInit\<close> passes exactly \<open>KILL_SIGS_OS\<close> to \<open>signal.Notify\<close>, and the set of
  these signals is equal to the set of the signals that \<open>SigRun\<close> classifies as kill
  signals, those for which it sends on the kill channel: neither set has a member that the
  other lacks.
\<close>

theorem C8_registered_eq_classified:
  "emitted SigInit s0 = [SignalNotify KILL_SIGS_OS] \<and>
   sigNotify (SigInit zero_Main) = set KILL_SIGS_OS \<and>
   set KILL_SIGS_OS = SyscallSignal ` set KILL_SIGS \<and>
   (val \<in> set KILL_SIGS_OS \<longleftrightarrow> (\<exists>sig. ChanKillSend sig \<in> set (emitted (SigRun_body val) s)))"
proof -
  have a: "emitted SigInit s0 = [SignalNotify KILL_SIGS_OS]"
    by (rule emitted_append) simp
  have b: "set KILL_SIGS_OS = SyscallSignal ` set KILL_SIGS"
    by (simp add: KILL_SIGS_OS_def KILL_SIGS_def)
  have c: "(val \<in> set KILL_SIGS_OS) = (\<exists>sig. ChanKillSend sig \<in> set (emitted (SigRun_body val) s))"
    by (cases val) (auto simp: b SigRun_body_def Kill_def emitted_def gg_Has_def)
  show ?thesis
    using a b c by simp
qed

text \<open>
  Claim C9, as amended. After a panic in \<open>Init\<close> or in \<open>Run\<close>, \<open>main\<close> runs \<open>Deinit\<close>, logs
  the error and exits with status 1. When \<open>Run\<close> returns after a kill signal, the teardown
  has run inside \<open>Terminate\<close> and the signal has been raised against the process: either
  that signal ends the process, or the process is still alive, runs the deferred calls, which
  find nothing left to release, and exits with status 0. While \<open>Run\<close> has not returned the
  program has not ended. However the process ends, every resource has been released
  before. The same holds for the deferred calls after any panic value and in any state. The
  teardown steps themselves are taken never to fail, as the spec says.

  The claim as first stated gives the status 0 to every shutdown without a panic. It fails
  on a run in which the raised signal ends the process, as the last theorem below shows.
\<close>

theorem C9_exit_paths:
  "(\<forall>e. snd (Init env zero_Main) = Some e \<longrightarrow>
      snd (main env renv rs) = Some (ExitedWith 1) \<and>
      trace (fst (main env renv rs)) =
        trace (Deinit (fst (Init env zero_Main))) @ [LogErr e, OsExit 1]) \<and>
   (\<forall>e. snd (Init env zero_Main) = None \<and>
        snd (Run renv rs (fst (Init env zero_Main))) = Panicked e \<longrightarrow>
      snd (main env renv rs) = Some (ExitedWith 1) \<and>
      trace (fst (main env renv rs)) =
        trace (Deinit (fst (Run renv rs (fst (Init env zero_Main))))) @ [LogErr e, OsExit 1]) \<and>
   (\<forall>sig. snd (Init env zero_Main) = None \<and>
        snd (Run renv rs (fst (Init env zero_Main))) = Returned sig \<and> \<not> SignalEnds renv \<longrightarrow>
      snd (main env renv rs) = Some (ExitedWith 0) \<and>
      trace (fst (main env renv rs)) =
        trace (fst (Run renv rs (fst (Init env zero_Main)))) @ [OsExit 0]) \<and>
   (\<forall>sig. snd (Init env zero_Main) = None \<and>
        snd (Run renv rs (fst (Init env zero_Main))) = Returned sig \<and> SignalEnds renv \<longrightarrow>
      main env renv rs = (fst (Run renv rs (fst (Init env zero_Main))), Some (EndedBySignal sig)) \<and>
      (\<exists>es. trace (fst (main env renv rs)) = es @ [SyscallKill sig])) \<and>
   (snd (Init env zero_Main) = None \<and>
      snd (Run renv rs (fst (Init env zero_Main))) = Blocked \<longrightarrow>
      main env renv rs = (fst (Run renv rs (fst (Init env zero_Main))), None)) \<and>
   (snd (main env renv rs) \<noteq> None \<longrightarrow> released (fst (main env renv rs))) \<and>
   ((\<forall>k. CallPanic renv k = None) \<longrightarrow>
      (snd (Run renv rs s0) = Blocked \<longleftrightarrow> \<not> (\<exists>sig. RecvKill sig \<in> set rs)) \<and>
      (\<forall>e. snd (Run renv rs s0) \<noteq> Panicked e)) \<and>
   snd (Exit r (Deinit s)) = (if r = None then 0 else 1) \<and>
   trace (fst (Exit r (Deinit s))) =
     trace s @ emitted Deinit s @
       (case r of None \<Rightarrow> [OsExit 0] | Some err \<Rightarrow> [LogErr err, OsExit 1])"
proof -
  let ?s1 = "fst (Init env zero_Main)"
  let ?s2 = "fst (Run renv rs ?s1)"
  have i1: "sub_inv ?s1"
    by (rule Init_sub_inv) (rule zero_sub_inv)
  have i2: "sub_inv ?s2"
    using i1 by (rule Run_inv)
  have a: "snd (main env renv rs) = Some (ExitedWith 1) \<and>
      trace (fst (main env renv rs)) = trace (Deinit ?s1) @ [LogErr e, OsExit 1] \<and>
      released (fst (main env renv rs))"
    if "snd (Init env zero_Main) = Some e" for e
    using that i1 by (simp add: main_Init_panic released_Deinit)
  have b: "snd (main env renv rs) = Some (ExitedWith 1) \<and>
      trace (fst (main env renv rs)) = trace (Deinit ?s2) @ [LogErr e, OsExit 1] \<and>
      released (fst (main env renv rs))"
    if "snd (Init env zero_Main) = None" "snd (Run renv rs ?s1) = Panicked e" for e
    using that i2 by (simp add: main_Run_panic released_Deinit)
  have c: "snd (main env renv rs) = Some (ExitedWith 0) \<and>
      trace (fst (main env renv rs)) = trace ?s2 @ [OsExit 0] \<and>
      released (fst (main env renv rs))"
    if "snd (Init env zero_Main) = None" "snd (Run renv rs ?s1) = Returned sig"
      "\<not> SignalEnds renv" for sig
  proof -
    have "released ?s2"
      using i1 that(2) by (rule Run_inv)
    then have "Deinit ?s2 = ?s2"
      by (rule released_skip)
    with that i2 show ?thesis
      using released_Deinit [of ?s2 None] by (simp add: main_exit)
  qed
  have d: "main env renv rs = (?s2, Some (EndedBySignal sig)) \<and>
      (\<exists>es. trace (fst (main env renv rs)) = es @ [SyscallKill sig]) \<and>
      released (fst (main env renv rs))"
    if "snd (Init env zero_Main) = None" "snd (Run renv rs ?s1) = Returned sig"
      "SignalEnds renv" for sig
    using that Run_inv(2,3) [OF i1, of renv rs sig] by (simp add: main_signal)
  have e: "main env renv rs = (?s2, None)"
    if "snd (Init env zero_Main) = None" "snd (Run renv rs ?s1) = Blocked"
    using that by (rule main_blocked)
  have f: "released (fst (main env renv rs))" if "snd (main env renv rs) \<noteq> None"
  proof (cases "snd (Init env zero_Main)")
    case (Some err)
    with a show ?thesis by blast
  next
    case None
    show ?thesis
    proof (cases "snd (Run renv rs ?s1)")
      case Blocked
      with None have "snd (main env renv rs) = None" by (simp add: e)
      with that show ?thesis by simp
    next
      case (Returned sig)
      with None c d show ?thesis by (cases "SignalEnds renv") blast+
    next
      case (Panicked err)
      with None b show ?thesis by blast
    qed
  qed
  have g: "snd (Exit r (Deinit s)) = (if r = None then 0 else 1)"
    by (simp split: option.splits)
  have k: "(snd (Run renv rs s0) = Blocked \<longleftrightarrow> \<not> (\<exists>sig. RecvKill sig \<in> set rs)) \<and>
      (\<forall>e. snd (Run renv rs s0) \<noteq> Panicked e)"
    if "\<forall>k. CallPanic renv k = None"
    using Run_no_panic [OF that, of rs s0] by (simp add: CmdRun_def CmdRun_loop_snd)
  have h: "trace (fst (Exit r (Deinit s))) =
     trace s @ emitted Deinit s @
       (case r of None \<Rightarrow> [OsExit 0] | Some err \<Rightarrow> [LogErr err, OsExit 1])"
    by (simp add: trace_Deinit emitted_Deinit)
  show ?thesis
    using a b c d e f g h k by blast
qed

theorem C9_exit_paths_witness:
  "main demo_env demo_run [RecvRestart 1200] =
     (Cmd_Restart (Opt_TermInter (set_lastRestart 1200 (Cmd_Restart demo_Main))), None) \<and>
   snd (main demo_env demo_run [RecvRestart 1200, RecvKill SIGINT]) = Some (ExitedWith 0) \<and>
   trace (fst (main demo_env demo_run [RecvRestart 1200, RecvKill SIGINT])) =
     [SignalNotify KILL_SIGS_OS, SetLastRestart 1000, CmdRestart,
      SetLastRestart 1200, TermInter, CmdRestart,
      CmdBroadcast SIGINT, StdioStop, TermRestore, WatcherDeinit, SignalStop, CmdRelease,
      SyscallKill SIGINT, OsExit 0] \<and>
   released (fst (main demo_env demo_run [RecvRestart 1200, RecvKill SIGINT])) \<and>
   snd (main demo_env demo_run_signal [RecvRestart 1200, RecvKill SIGINT]) =
     Some (EndedBySignal SIGINT) \<and>
   released (fst (main demo_env demo_run_signal [RecvRestart 1200, RecvKill SIGINT])) \<and>
   snd (main demo_env demo_run_panic [RecvRestart 1200, RecvKill SIGINT]) = Some (ExitedWith 1) \<and>
   trace (fst (main demo_env demo_run_panic [RecvRestart 1200, RecvKill SIGINT])) =
     [SignalNotify KILL_SIGS_OS, SetLastRestart 1000, CmdRestart,
      SetLastRestart 1200, TermInter,
      StdioStop, TermRestore, WatcherDeinit, SignalStop, CmdRelease,
      LogErr (Panic ''spawn''), OsExit 1] \<and>
   released (fst (main demo_env demo_run_panic [RecvRestart 1200, RecvKill SIGINT])) \<and>
   snd (main demo_env_fail demo_run []) = Some (ExitedWith 1) \<and>
   trace (fst (main demo_env_fail demo_run [])) =
     [SignalNotify KILL_SIGS_OS, SignalStop, LogErr (Panic ''watch''), OsExit 1] \<and>
   released (fst (main demo_env_fail demo_run []))"
proof -
  have ok: "snd (Init demo_env zero_Main) = None"
    and bad: "snd (Init demo_env_fail zero_Main) = Some (Panic ''watch'')"
    by (simp_all add: Init_demo Init_demo_fail)
  have s1: "fst (Init demo_env zero_Main) = demo_Main"
    and s2: "fst (Init demo_env_fail zero_Main) = demo_Main_fail"
    by (simp_all add: demo_Main_def demo_Main_fail_def)
  have n: "set KILL_SIGS_OS \<noteq> {}" "KILL_SIGS_OS \<noteq> []"
    by (simp_all add: KILL_SIGS_OS_def)
  show ?thesis
    using C9_exit_paths [of demo_env demo_run "[RecvRestart 1200]" demo_Main None zero_Main]
      C9_exit_paths [of demo_env demo_run "[RecvRestart 1200, RecvKill SIGINT]" demo_Main None zero_Main]
      C9_exit_paths [of demo_env demo_run_signal "[RecvRestart 1200, RecvKill SIGINT]" demo_Main
        None zero_Main]
      C9_exit_paths [of demo_env demo_run_panic "[RecvRestart 1200, RecvKill SIGINT]" demo_Main
        None zero_Main]
      C9_exit_paths [of demo_env_fail demo_run "[]" demo_Main None zero_Main]
    by (simp add: ok bad s1 s2 Run_demo trace_Deinit Deinit_events_def n released_def)
qed

theorem C9_exit_status_counterexample:
  "snd (main demo_env demo_run_signal [RecvRestart 1200, RecvKill SIGINT]) =
     Some (EndedBySignal SIGINT) \<and>
   snd (main demo_env demo_run_signal [RecvRestart 1200, RecvKill SIGINT]) \<noteq> Some (ExitedWith 0) \<and>
   trace (fst (main demo_env demo_run_signal [RecvRestart 1200, RecvKill SIGINT])) =
     [SignalNotify KILL_SIGS_OS, SetLastRestart 1000, CmdRestart,
      SetLastRestart 1200, TermInter, CmdRestart,
      CmdBroadcast SIGINT, StdioStop, TermRestore, WatcherDeinit, SignalStop, CmdRelease,
      SyscallKill SIGINT]"
proof -
  have ok: "snd (Init demo_env zero_Main) = None"
    by (simp add: Init_demo)
  have s1: "fst (Init demo_env zero_Main) = demo_Main"
    by (simp add: demo_Main_def)
  have n: "set KILL_SIGS_OS \<noteq> {}" "KILL_SIGS_OS \<noteq> []"
    by (simp_all add: KILL_SIGS_OS_def)
  have "main demo_env demo_run_signal [RecvRestart 1200, RecvKill SIGINT] =
      (Terminate SIGINT
         (Cmd_Restart (Opt_TermInter (set_lastRestart 1200 (Cmd_Restart demo_Main)))),
       Some (EndedBySignal SIGINT))"
    using main_signal [of demo_env demo_run_signal "[RecvRestart 1200, RecvKill SIGINT]" SIGINT]
    by (simp add: ok s1 Run_demo)
  then show ?thesis
    by (simp add: Deinit_events_def n)
qed

text \<open>
  Claim C10. \<open>Init\<close> ends by setting the last-restart timestamp to the current time, and
  has restarted nothing by then. The bootstrap restart of \<open>CmdRun\<close> does not move the
  timestamp. So in every state with the options and the timestamp that \<open>Init\<close> left, with
  or without the postpone flag, an event that arrives less than the debounce duration after
  the end of \<open>Init\<close> is rejected and dropped.
\<close>

theorem C10_debounce_from_start:
  "snd (Init env zero_Main) = None \<longrightarrow>
     lastRestart (fst (Init env zero_Main)) = Now env \<and>
     CmdRestart \<notin> set (trace (fst (Init env zero_Main))) \<and>
     lastRestart (fst (CmdRun [] (fst (Init env zero_Main)))) = Now env \<and>
     (Opt s = Opt (fst (Init env zero_Main)) \<and>
      lastRestart s = lastRestart (fst (Init env zero_Main)) \<and>
      now - Now env < Debounce (Opt s) \<longrightarrow>
      \<not> ShouldRestart allowPath now s event \<and> OnFsEvent allowPath now event s = s)"
proof
  assume ok: "snd (Init env zero_Main) = None"
  note sel = Init_ok_sel [OF ok]
  have a: "lastRestart (fst (Init env zero_Main)) = Now env"
    by (rule sel)
  have b: "CmdRestart \<notin> set (trace (fst (Init env zero_Main)))"
    by (simp add: sel)
  have c: "lastRestart (fst (CmdRun [] (fst (Init env zero_Main)))) = Now env"
    by (simp add: CmdRun_def sel)
  have d: "\<not> ShouldRestart allowPath now s event \<and> OnFsEvent allowPath now event s = s"
    if "lastRestart s = lastRestart (fst (Init env zero_Main))"
      "now - Now env < Debounce (Opt s)"
  proof -
    have "\<not> ShouldRestart allowPath now s event"
      using that a by (cases event) (simp_all add: ShouldRestart_def Debounce_Allow_def)
    then show ?thesis by (simp add: OnFsEvent_def)
  qed
  show "lastRestart (fst (Init env zero_Main)) = Now env \<and>
     CmdRestart \<notin> set (trace (fst (Init env zero_Main))) \<and>
     lastRestart (fst (CmdRun [] (fst (Init env zero_Main)))) = Now env \<and>
     (Opt s = Opt (fst (Init env zero_Main)) \<and>
      lastRestart s = lastRestart (fst (Init env zero_Main)) \<and>
      now - Now env < Debounce (Opt s) \<longrightarrow>
      \<not> ShouldRestart allowPath now s event \<and> OnFsEvent allowPath now event s = s)"
    using a b c d by blast
qed

theorem C10_debounce_witness:
  "lastRestart demo_Main = 1000 \<and>
   \<not> ShouldRestart allow_go 1099 (fst (CmdRun [] demo_Main)) (Some (FsEvent ''main.go'')) \<and>
   \<not> ShouldRestart allow_go 1099 (demo_Main\<lparr>Opt := (Opt demo_Main)\<lparr>Postpone := True\<rparr>\<rparr>)
        (Some (FsEvent ''main.go'')) \<and>
   ShouldRestart allow_go 1100 (demo_Main\<lparr>Opt := (Opt demo_Main)\<lparr>Postpone := True\<rparr>\<rparr>)
        (Some (FsEvent ''main.go''))"
proof -
  have ok: "snd (Init demo_env zero_Main) = None"
    by (simp add: Init_demo)
  have s1: "fst (Init demo_env zero_Main) = demo_Main"
    by (simp add: demo_Main_def)
  have n: "Now demo_env = 1000"
    by (simp add: demo_env_def)
  have "lastRestart demo_Main = 1000 \<and>
      \<not> ShouldRestart allow_go 1099 (fst (CmdRun [] demo_Main)) (Some (FsEvent ''main.go''))"
    using C10_debounce_from_start [of demo_env "fst (CmdRun [] demo_Main)" 1099 allow_go
        "Some (FsEvent ''main.go'')"] ok
    by (simp add: s1 n CmdRun_def)
  then show ?thesis
    by (simp add: ShouldRestart_def Debounce_Allow_def allow_go_def Cmd_IsRunning_def)
qed

end
